theory Spec2Isabelle
  imports Complex_Main
begin

section \<open>JavaScript strings and values\<close>

text \<open>
  A JavaScript string is a sequence of UTF-16 code units. The currency symbols of
  \<^verbatim>\<open>normalizer.js\<close> lie outside the 8-bit range of \<^typ>\<open>char\<close>, so a string is a
  list of code units, each an integer in the range 0 to 65535; \<open>js\<close> embeds an ASCII literal.
\<close>

type_synonym jsstring = "int list"

definition js :: "string \<Rightarrow> jsstring" where
  "js s = map of_char s"

text \<open>
  The code units that \<^verbatim>\<open>String.prototype.trim\<close> removes and that \<^verbatim>\<open>\s\<close> matches:
  WhiteSpace and LineTerminator of ECMA-262.
\<close>

definition isWhiteSpace :: "int \<Rightarrow> bool" where
  "isWhiteSpace c \<longleftrightarrow>
     c = 9 \<or> c = 10 \<or> c = 11 \<or> c = 12 \<or> c = 13 \<or> c = 32 \<or> c = 160 \<or> c = 5760 \<or>
     (8192 \<le> c \<and> c \<le> 8202) \<or> c = 8232 \<or> c = 8233 \<or> c = 8239 \<or> c = 8287 \<or>
     c = 12288 \<or> c = 65279"

definition jsTrim :: "jsstring \<Rightarrow> jsstring" where
  "jsTrim s = rev (dropWhile isWhiteSpace (rev (dropWhile isWhiteSpace s)))"

definition isDigit :: "int \<Rightarrow> bool" where
  "isDigit c \<longleftrightarrow> 48 \<le> c \<and> c \<le> 57"

definition lowerAscii :: "int \<Rightarrow> int" where
  "lowerAscii c = (if 65 \<le> c \<and> c \<le> 90 then c + 32 else c)"

definition upperAscii :: "int \<Rightarrow> int" where
  "upperAscii c = (if 97 \<le> c \<and> c \<le> 122 then c - 32 else c)"

text \<open>
  A Number is an IEEE 754 double: \<open>NaN\<close>, an infinity, or a finite double, held as its
  exact rational value (the two zeros are not told apart).
\<close>

datatype jsnum = NaN | PosInf | NegInf | Fin rat

text \<open>
  What the program uses of the JavaScript engine without fixing it itself:
  \<^item> \<open>unicodeLower\<close>: \<^verbatim>\<open>toLowerCase\<close> on a string that holds a code unit outside ASCII
    (the Unicode case mapping; on an ASCII string \<^verbatim>\<open>toLowerCase\<close> is \<open>map lowerAscii\<close>);
  \<^item> \<open>dateParse\<close>: the time value, in milliseconds since the epoch, of \<^verbatim>\<open>new Date(s)\<close>
    for a string \<open>s\<close>, \<open>None\<close> for an Invalid Date (ECMA-262 leaves the parsing of
    strings outside its date-time format to the implementation, and local-time forms
    depend on the time zone);
  \<^item> \<open>numberString\<close>: \<^verbatim>\<open>String(n)\<close> for a number (the shortest decimal that reads back
    as the same double).
  Theorems quantify over the engine; closed evaluations use \<open>refEngine\<close> below, at inputs
  on which every engine agrees.
\<close>

record engine =
  unicodeLower :: "jsstring \<Rightarrow> jsstring"
  dateParse :: "jsstring \<Rightarrow> int option"
  numberString :: "jsnum \<Rightarrow> jsstring"

definition toLowerCase :: "engine \<Rightarrow> jsstring \<Rightarrow> jsstring" where
  "toLowerCase E s = (if list_all (\<lambda>c. c < 128) s then map lowerAscii s else unicodeLower E s)"

fun startsWith :: "jsstring \<Rightarrow> jsstring \<Rightarrow> bool" where
  "startsWith s [] = True"
| "startsWith [] (c # t) = False"
| "startsWith (x # s) (c # t) = (x = c \<and> startsWith s t)"

text \<open>\<^verbatim>\<open>s.includes(t)\<close>: \<open>t\<close> occurs in \<open>s\<close> as a contiguous run of code units.\<close>

fun jsIncludes :: "jsstring \<Rightarrow> jsstring \<Rightarrow> bool" where
  "jsIncludes [] t = (t = [])"
| "jsIncludes (x # s) t = (startsWith (x # s) t \<or> jsIncludes s t)"

section \<open>JavaScript numbers\<close>

text \<open>
  \<open>toDouble\<close> rounds a rational to the nearest double, ties to even: 53 significant
  bits, the exponent bounded below by the subnormal range and above by overflow to
  infinity.
\<close>

function log2floor :: "int \<Rightarrow> int" where
  "log2floor n = (if n < 2 then 0 else 1 + log2floor (n div 2))"
  by pat_completeness auto
termination
  by (relation "measure nat") auto

declare log2floor.simps [simp del]

definition pow2 :: "int \<Rightarrow> rat" where
  "pow2 e = (if 0 \<le> e then 2 ^ nat e else 1 / 2 ^ nat (- e))"

text \<open>\<open>ilog2 a\<close> is the \<open>e\<close> with \<open>2 ^ e \<le> a < 2 ^ (e + 1)\<close>, for \<open>a > 0\<close>.\<close>

definition ilog2 :: "rat \<Rightarrow> int" where
  "ilog2 a =
     (let (p, q) = quotient_of a;
          d = log2floor p - log2floor q
      in if pow2 d \<le> a then d else d - 1)"

definition roundHalfEven :: "rat \<Rightarrow> int" where
  "roundHalfEven q =
     (let f = \<lfloor>q\<rfloor>; r = q - of_int f
      in if r < 1 / 2 then f else if 1 / 2 < r then f + 1 else if even f then f else f + 1)"

definition roundDouble :: "rat \<Rightarrow> rat" where
  "roundDouble x =
     (if x = 0 then 0
      else let a = \<bar>x\<bar>; e = max (ilog2 a) (- 1022); u = pow2 (e - 52)
           in sgn x * of_int (roundHalfEven (a / u)) * u)"

definition toDouble :: "rat \<Rightarrow> jsnum" where
  "toDouble x =
     (let y = roundDouble x
      in if y \<noteq> 0 \<and> 1024 \<le> ilog2 \<bar>y\<bar> then (if 0 < y then PosInf else NegInf) else Fin y)"

text \<open>
  The values a normalized row holds (\<^verbatim>\<open>string | number | null\<close>).
\<close>

datatype jsval = VNull | VNum jsnum | VStr jsstring

text \<open>JavaScript truthiness of a row value: \<^verbatim>\<open>null\<close>, \<^verbatim>\<open>0\<close>, \<^verbatim>\<open>NaN\<close> and \<^verbatim>\<open>""\<close> are
  falsy.\<close>

fun truthy :: "jsval \<Rightarrow> bool" where
  "truthy VNull = False"
| "truthy (VNum x) = (x \<noteq> Fin 0 \<and> x \<noteq> NaN)"
| "truthy (VStr s) = (s \<noteq> [])"

text \<open>
  \<^verbatim>\<open>parseFloat\<close>: after leading white space, the longest prefix that is a signed decimal
  literal (\<^verbatim>\<open>Infinity\<close>, or digits with an optional fraction and exponent), rounded to a
  double; \<open>NaN\<close> when there is none.
\<close>

definition digitsValue :: "jsstring \<Rightarrow> int" where
  "digitsValue s = foldl (\<lambda>a c. 10 * a + (c - 48)) 0 s"

definition signPart :: "jsstring \<Rightarrow> bool \<times> jsstring" where
  "signPart s =
     (case s of [] \<Rightarrow> (False, s)
      | c # r \<Rightarrow> if c = 45 then (True, r) else if c = 43 then (False, r) else (False, s))"

text \<open>The exponent part at the head of a string (\<open>0\<close> when there is none), and the rest.\<close>

definition exponentPart :: "jsstring \<Rightarrow> int \<times> jsstring" where
  "exponentPart s =
     (case s of [] \<Rightarrow> (0, s)
      | c # r \<Rightarrow>
          if c = 101 \<or> c = 69 then
            (let (neg, d) = signPart r; ds = takeWhile isDigit d
             in if ds = [] then (0, s)
                else (if neg then - digitsValue ds else digitsValue ds, dropWhile isDigit d))
          else (0, s))"

definition pow10 :: "int \<Rightarrow> rat" where
  "pow10 e = (if 0 \<le> e then 10 ^ nat e else 1 / 10 ^ nat (- e))"

text \<open>
  The unsigned decimal literal at the head of \<open>r\<close>: its exact rational value and the rest
  of the string.
\<close>

definition decimalPrefix :: "jsstring \<Rightarrow> (rat \<times> jsstring) option" where
  "decimalPrefix r =
     (let ip = takeWhile isDigit r; r1 = dropWhile isDigit r;
          dot = (r1 \<noteq> [] \<and> hd r1 = 46);
          fp = (if dot then takeWhile isDigit (tl r1) else []);
          r2 = (if dot then dropWhile isDigit (tl r1) else r1)
      in if ip = [] \<and> fp = [] then None
         else Some ((of_int (digitsValue ip) + of_int (digitsValue fp) / 10 ^ length fp) *
                      pow10 (fst (exponentPart r2)),
                    snd (exponentPart r2)))"

definition parseFloat :: "jsstring \<Rightarrow> jsnum" where
  "parseFloat s =
     (let (neg, r) = signPart (dropWhile isWhiteSpace s) in
      if startsWith r (js ''Infinity'') then (if neg then NegInf else PosInf)
      else
        case decimalPrefix r of
          None \<Rightarrow> NaN
        | Some (v, rest) \<Rightarrow> toDouble (if neg then - v else v))"

text \<open>
  \<^verbatim>\<open>Number(s)\<close> for a string: the whole trimmed string is a numeric literal (a signed
  decimal literal or \<^verbatim>\<open>Infinity\<close>, or an unsigned hexadecimal, octal or binary integer),
  the empty string is \<open>0\<close>, everything else is \<open>NaN\<close>.
\<close>

definition digitOf :: "int \<Rightarrow> int" where
  "digitOf c =
     (if 48 \<le> c \<and> c \<le> 57 then c - 48
      else if 97 \<le> c \<and> c \<le> 102 then c - 87
      else if 65 \<le> c \<and> c \<le> 70 then c - 55
      else 99)"

definition baseValue :: "int \<Rightarrow> jsstring \<Rightarrow> int" where
  "baseValue b s = foldl (\<lambda>a c. b * a + digitOf c) 0 s"

definition radixOf :: "int \<Rightarrow> int option" where
  "radixOf x =
     (if x = 120 \<or> x = 88 then Some 16
      else if x = 111 \<or> x = 79 then Some 8
      else if x = 98 \<or> x = 66 then Some 2
      else None)"

definition nonDecimalLiteral :: "jsstring \<Rightarrow> int option" where
  "nonDecimalLiteral s =
     (case s of
        z # x # ds \<Rightarrow>
          (case radixOf x of
             Some b \<Rightarrow>
               if z = 48 \<and> ds \<noteq> [] \<and> list_all (\<lambda>c. digitOf c < b) ds then Some (baseValue b ds)
               else None
           | None \<Rightarrow> None)
      | _ \<Rightarrow> None)"

definition toNumber :: "jsstring \<Rightarrow> jsnum" where
  "toNumber s =
     (let t = jsTrim s in
      if t = [] then Fin 0
      else
        case nonDecimalLiteral t of
          Some n \<Rightarrow> toDouble (of_int n)
        | None \<Rightarrow>
            (let (neg, r) = signPart t in
             if r = js ''Infinity'' then (if neg then NegInf else PosInf)
             else
               case decimalPrefix r of
                 None \<Rightarrow> NaN
               | Some (v, rest) \<Rightarrow> if rest = [] then toDouble (if neg then - v else v) else NaN))"

section \<open>Objects as ordered property lists\<close>

text \<open>
  A row is a plain object: its own properties in insertion order. \<^verbatim>\<open>Object.keys\<close>
  lists the array-index keys first, in ascending numeric order, then the other string
  keys in insertion order.
\<close>

type_synonym row = "(jsstring \<times> jsval) list"

definition isArrayIndex :: "jsstring \<Rightarrow> bool" where
  "isArrayIndex k \<longleftrightarrow>
     k \<noteq> [] \<and> list_all isDigit k \<and> (hd k \<noteq> 48 \<or> length k = 1) \<and> digitsValue k < 4294967295"

definition objectKeys :: "(jsstring \<times> 'a) list \<Rightarrow> jsstring list" where
  "objectKeys r =
     sort_key digitsValue (filter isArrayIndex (map fst r)) @
     filter (\<lambda>k. \<not> isArrayIndex k) (map fst r)"

text \<open>\<^verbatim>\<open>obj[k] = v\<close> on own properties: overwrite in place, or append a new property.\<close>

fun setProp :: "(jsstring \<times> 'a) list \<Rightarrow> jsstring \<Rightarrow> 'a \<Rightarrow> (jsstring \<times> 'a) list" where
  "setProp [] k v = [(k, v)]"
| "setProp ((k', v') # r) k v = (if k' = k then (k, v) # r else (k', v') # setProp r k v)"

text \<open>\<^verbatim>\<open>r[k]\<close> on a row; \<^verbatim>\<open>undefined\<close> is read as \<open>VNull\<close> (both are falsy non-numbers,
  non-strings, and the program never tells them apart).\<close>

definition getProp :: "row \<Rightarrow> jsstring \<Rightarrow> jsval" where
  "getProp r k = (case map_of r k of Some v \<Rightarrow> v | None \<Rightarrow> VNull)"

section \<open>Dates of the built-in Date object\<close>

text \<open>
  The proleptic Gregorian calendar of ECMA-262, in days since 1970-01-01: the day number
  of a civil date, and the civil date (year, month 1 to 12, day of month) of a day number.
\<close>

definition daysFromCivil :: "int \<Rightarrow> int \<Rightarrow> int \<Rightarrow> int" where
  "daysFromCivil y m d =
     (let y' = (if m \<le> 2 then y - 1 else y);
          era = y' div 400;
          yoe = y' - era * 400;
          doy = (153 * (if 2 < m then m - 3 else m + 9) + 2) div 5 + d - 1;
          doe = yoe * 365 + yoe div 4 - yoe div 100 + doy
      in era * 146097 + doe - 719468)"

definition civilFromDays :: "int \<Rightarrow> int \<times> int \<times> int" where
  "civilFromDays z =
     (let z' = z + 719468;
          era = z' div 146097;
          doe = z' - era * 146097;
          yoe = (doe - doe div 1460 + doe div 36524 - doe div 146096) div 365;
          doy = doe - (365 * yoe + yoe div 4 - yoe div 100);
          mp = (5 * doy + 2) div 153;
          d = doy - (153 * mp + 2) div 5 + 1;
          m = (if mp < 10 then mp + 3 else mp - 9)
      in ((if m \<le> 2 then yoe + era * 400 + 1 else yoe + era * 400), m, d))"

function decimalString :: "int \<Rightarrow> jsstring" where
  "decimalString n = (if n < 10 then [48 + n] else decimalString (n div 10) @ [48 + n mod 10])"
  by pat_completeness auto
termination
  by (relation "measure nat") auto

declare decimalString.simps [simp del]

text \<open>\<^verbatim>\<open>String(n).padStart(w, "0")\<close> for an integer \<open>n \<ge> 0\<close>.\<close>

definition padStart0 :: "nat \<Rightarrow> int \<Rightarrow> jsstring" where
  "padStart0 w n = replicate (w - length (decimalString n)) 48 @ decimalString n"

definition msPerDay :: int where
  "msPerDay = 86400000"

text \<open>
  \<^verbatim>\<open>toISOString\<close> of a valid time value: a four-digit year from 0 to 9999, a sign and
  six digits outside.
\<close>

definition isoYear :: "int \<Rightarrow> jsstring" where
  "isoYear y =
     (if 0 \<le> y \<and> y \<le> 9999 then padStart0 4 y
      else (if y < 0 then 45 else 43) # padStart0 6 \<bar>y\<bar>)"

definition toISOString :: "int \<Rightarrow> jsstring" where
  "toISOString t =
     (let (y, m, d) = civilFromDays (t div msPerDay); ms = t mod msPerDay
      in isoYear y @ [45] @ padStart0 2 m @ [45] @ padStart0 2 d @ [84] @
         padStart0 2 (ms div 3600000) @ [58] @ padStart0 2 (ms div 60000 mod 60) @ [58] @
         padStart0 2 (ms div 1000 mod 60) @ [46] @ padStart0 3 (ms mod 1000) @ [90])"

text \<open>
  \<^verbatim>\<open>Date.UTC(year, month, date)\<close> with the time of day zero: the date argument is
  truncated, the month counts from 0, and a time value beyond 8.64e15 ms is \<open>NaN\<close>
  (\<open>None\<close>).
\<close>

definition truncToInt :: "rat \<Rightarrow> int" where
  "truncToInt x = (if 0 \<le> x then \<lfloor>x\<rfloor> else \<lceil>x\<rceil>)"

definition DateUTC :: "int \<Rightarrow> int \<Rightarrow> rat \<Rightarrow> int option" where
  "DateUTC y m dt =
     (let day = daysFromCivil (y + m div 12) (m mod 12 + 1) 1 + truncToInt dt - 1;
          tv = day * msPerDay
      in if \<bar>tv\<bar> \<le> 8640000000000000 then Some tv else None)"

section \<open>Date normalization (normalizer.js)\<close>

text \<open>An exception: a built-in error, or \<^verbatim>\<open>new Error(message)\<close>.\<close>

datatype jserror = TypeError | RangeError | Error jsstring

text \<open>\<^verbatim>\<open>ISO_RE.test(s)\<close> for \<^verbatim>\<open>/^\d{4}-\d{2}-\d{2}/\<close>: a test of the first ten code units.\<close>

definition datePattern :: "jsstring \<Rightarrow> bool" where
  "datePattern s \<longleftrightarrow>
     length s = 10 \<and> list_all isDigit (take 4 s) \<and> s ! 4 = 45 \<and>
     list_all isDigit (take 2 (drop 5 s)) \<and> s ! 7 = 45 \<and> list_all isDigit (drop 8 s)"

definition ISO_RE :: "jsstring \<Rightarrow> bool" where
  "ISO_RE s \<longleftrightarrow> 10 \<le> length s \<and> datePattern (take 10 s)"

text \<open>The whole string matches \<^verbatim>\<open>/^\d{4}-\d{2}-\d{2}$/\<close>.\<close>

definition matchesYMD :: "jsstring \<Rightarrow> bool" where
  "matchesYMD s \<longleftrightarrow> datePattern s"

definition isExcelSerial :: "jsstring \<Rightarrow> bool" where
  "isExcelSerial v = (case toNumber v of Fin n \<Rightarrow> 30000 < n \<and> n < 60000 | _ \<Rightarrow> False)"

definition pad2 :: "int \<Rightarrow> jsstring" where
  "pad2 n = padStart0 2 n"

definition formatYMD :: "int \<Rightarrow> int \<Rightarrow> int \<Rightarrow> jsstring option" where
  "formatYMD y m d =
     (if m < 1 \<or> 12 < m \<or> d < 1 \<or> 31 < d then None
      else Some (decimalString y @ [45] @ pad2 m @ [45] @ pad2 d))"

text \<open>
  \<^verbatim>\<open>excelSerialToDate(serial)\<close>: \<^verbatim>\<open>30 + serial\<close> is a double addition; \<^verbatim>\<open>toISOString\<close>
  throws a RangeError on an invalid date.
\<close>

definition excelSerialToDate :: "rat \<Rightarrow> jserror + jsstring" where
  "excelSerialToDate serial =
     (case DateUTC 1899 11 (roundDouble (30 + serial)) of
        None \<Rightarrow> Inl RangeError
      | Some tv \<Rightarrow> Inr (take 10 (toISOString tv)))"

text \<open>
  \<^verbatim>\<open>s.match(MDY_RE)\<close> for \<^verbatim>\<open>/^(\d{1,2})[\/\-](\d{1,2})[\/\-](\d{4})$/\<close>, with its three
  groups: a run of one or two digits, a separator, again, and exactly four digits.
\<close>

definition isDateSep :: "int \<Rightarrow> bool" where
  "isDateSep c \<longleftrightarrow> c = 47 \<or> c = 45"

definition matchMDY_RE :: "jsstring \<Rightarrow> (jsstring \<times> jsstring \<times> jsstring) option" where
  "matchMDY_RE s =
     (let g1 = takeWhile isDigit s; r1 = dropWhile isDigit s;
          g2 = takeWhile isDigit (tl r1); r2 = dropWhile isDigit (tl r1); g3 = tl r2
      in if (length g1 = 1 \<or> length g1 = 2) \<and> r1 \<noteq> [] \<and> isDateSep (hd r1) \<and>
            (length g2 = 1 \<or> length g2 = 2) \<and> r2 \<noteq> [] \<and> isDateSep (hd r2) \<and>
            length g3 = 4 \<and> list_all isDigit g3
         then Some (g1, g2, g3) else None)"

text \<open>
  \<^verbatim>\<open>normalizeDate(raw)\<close>; \<open>raw\<close> is a string, or \<open>None\<close> for \<^verbatim>\<open>null\<close> and
  \<^verbatim>\<open>undefined\<close>. The result is \<open>Inr None\<close> for \<^verbatim>\<open>null\<close>, \<open>Inr (Some s)\<close> for a string
  and \<open>Inl e\<close> for an exception.
\<close>

definition normalizeDate :: "engine \<Rightarrow> jsstring option \<Rightarrow> jserror + jsstring option" where
  "normalizeDate E raw =
     (case raw of
        None \<Rightarrow> Inr None
      | Some r \<Rightarrow>
          if r = [] \<or> jsTrim r = [] then Inr None
          else
            let s = jsTrim r in
            if ISO_RE s then
              (case dateParse E s of
                 None \<Rightarrow> Inr None
               | Some t \<Rightarrow> Inr (Some (take 10 (toISOString t))))
            else if isExcelSerial s then
              (case toNumber s of
                 Fin n \<Rightarrow> (case excelSerialToDate n of Inl e \<Rightarrow> Inl e | Inr d \<Rightarrow> Inr (Some d))
               | _ \<Rightarrow> Inr None)
            else
              (case matchMDY_RE s of
                 Some (m, d, y) \<Rightarrow> Inr (formatYMD (digitsValue y) (digitsValue m) (digitsValue d))
               | None \<Rightarrow> Inr None))"

section \<open>Currency normalization (normalizer.js)\<close>

text \<open>The symbols \<^verbatim>\<open>$\<close>, rupee (U+20B9), euro (U+20AC) and pound (U+00A3).\<close>

definition CURRENCY_SYMBOLS :: "(int \<times> jsstring) list" where
  "CURRENCY_SYMBOLS = [(36, js ''USD''), (8377, js ''INR''), (8364, js ''EUR''), (163, js ''GBP'')]"

definition currencyCodes :: "jsstring list" where
  "currencyCodes = [js ''USD'', js ''INR'', js ''EUR'', js ''GBP'']"

record currency_match =
  m_symbol :: "int option"
  m_amount :: jsstring
  m_code :: "jsstring option"

definition isAmountChar :: "int \<Rightarrow> bool" where
  "isAmountChar c \<longleftrightarrow> isDigit c \<or> c = 44"

text \<open>
  \<^verbatim>\<open>s.match(CURRENCY_RE)\<close> with its three groups, for
  \<^verbatim>\<open>/^([sym]?)\s*([\d,]+\.?\d*)\s*(USD|INR|EUR|GBP)?$/i\<close>. The character classes that
  follow one another are disjoint, so the greedy reading is the only one that can reach
  the end of the string. Under the flag \<^verbatim>\<open>i\<close> (without \<^verbatim>\<open>u\<close>) a code unit outside
  ASCII never matches an ASCII letter, so the code is compared through \<open>upperAscii\<close>.
\<close>

definition matchAmountCode :: "int option \<Rightarrow> jsstring \<Rightarrow> currency_match option" where
  "matchAmountCode sy r2 =
     (let a1 = takeWhile isAmountChar r2;
          r3 = dropWhile isAmountChar r2;
          dot = (r3 \<noteq> [] \<and> hd r3 = 46);
          r4 = (if dot then tl r3 else r3);
          a2 = takeWhile isDigit r4;
          r6 = dropWhile isWhiteSpace (dropWhile isDigit r4);
          amt = a1 @ (if dot then [46] else []) @ a2
      in if a1 = [] then None
         else if r6 = [] then Some \<lparr>m_symbol = sy, m_amount = amt, m_code = None\<rparr>
         else if map upperAscii r6 \<in> set currencyCodes
           then Some \<lparr>m_symbol = sy, m_amount = amt, m_code = Some r6\<rparr>
         else None)"

definition matchCURRENCY_RE :: "jsstring \<Rightarrow> currency_match option" where
  "matchCURRENCY_RE s =
     (if s \<noteq> [] \<and> hd s \<in> set (map fst CURRENCY_SYMBOLS)
      then matchAmountCode (Some (hd s)) (dropWhile isWhiteSpace (tl s))
      else matchAmountCode None (dropWhile isWhiteSpace s))"

text \<open>The result \<^verbatim>\<open>{ value, currency }\<close>; \<open>None\<close> is \<^verbatim>\<open>null\<close>.\<close>

record money =
  amount :: "jsnum option"
  currency :: "jsstring option"

text \<open>The characters that \<^verbatim>\<open>s.replace(/[^0-9.\-]/g, "")\<close> keeps.\<close>

definition keepNumChar :: "int \<Rightarrow> bool" where
  "keepNumChar c \<longleftrightarrow> isDigit c \<or> c = 46 \<or> c = 45"

text \<open>The argument \<open>raw\<close> is a string, or \<open>None\<close> for \<^verbatim>\<open>null\<close> and \<^verbatim>\<open>undefined\<close>.\<close>

definition normalizeCurrency :: "jsstring option \<Rightarrow> money" where
  "normalizeCurrency raw =
     (case raw of
        None \<Rightarrow> \<lparr>amount = None, currency = None\<rparr>
      | Some r \<Rightarrow>
          if r = [] \<or> jsTrim r = [] then \<lparr>amount = None, currency = None\<rparr>
          else
            let s = filter (\<lambda>c. c \<noteq> 44) (jsTrim r) in
            (case matchCURRENCY_RE s of
              None \<Rightarrow>
                (let numOnly = parseFloat (filter keepNumChar s)
                 in \<lparr>amount = (if numOnly = NaN then None else Some numOnly),
                     currency = Some (js ''UNKNOWN'')\<rparr>)
            | Some m \<Rightarrow>
                \<lparr>amount = Some (parseFloat (m_amount m)),
                 currency = Some
                   (case m_code m of
                      Some c \<Rightarrow> map upperAscii c
                    | None \<Rightarrow>
                        (case m_symbol m of
                           None \<Rightarrow> js ''INR''
                         | Some y \<Rightarrow>
                             (case map_of CURRENCY_SYMBOLS y of
                                Some code \<Rightarrow> code
                              | None \<Rightarrow> js ''INR'')))\<rparr>))"

section \<open>Sector canonicalization (normalizer.js)\<close>

definition SECTOR_MAP :: "(jsstring \<times> jsstring) list" where
  "SECTOR_MAP =
    [(js ''oil & gas'', js ''Oil & Gas''), (js ''oil and gas'', js ''Oil & Gas''),
     (js ''o&g'', js ''Oil & Gas''),
     (js ''mining'', js ''Mining''), (js ''mines'', js ''Mining''),
     (js ''infra'', js ''Infrastructure''), (js ''infrastructure'', js ''Infrastructure''),
     (js ''real estate'', js ''Real Estate''), (js ''realestate'', js ''Real Estate''),
     (js ''construction'', js ''Construction''),
     (js ''agriculture'', js ''Agriculture''), (js ''agri'', js ''Agriculture''),
     (js ''solar'', js ''Solar Energy''), (js ''solar energy'', js ''Solar Energy''),
     (js ''renewables'', js ''Renewable Energy''),
     (js ''renewable energy'', js ''Renewable Energy''),
     (js ''telecom'', js ''Telecom''), (js ''telecommunications'', js ''Telecom''),
     (js ''govt'', js ''Government''), (js ''government'', js ''Government''),
     (js ''public sector'', js ''Government''),
     (js ''defence'', js ''Defence''), (js ''defense'', js ''Defence''),
     (js ''urban dev'', js ''Urban Development''),
     (js ''urban development'', js ''Urban Development''),
     (js ''survey'', js ''Survey''), (js ''surveying'', js ''Survey'')]"

text \<open>
  \<^verbatim>\<open>SECTOR_MAP\<close> is an object literal, so \<^verbatim>\<open>SECTOR_MAP[key]\<close> also finds the
  properties inherited from \<^verbatim>\<open>Object.prototype\<close>. Each of them is a truthy object (a
  built-in function, or for \<^verbatim>\<open>__proto__\<close> the prototype itself), so the lookup
  \<^verbatim>\<open>SECTOR_MAP[key] || ...\<close> returns it.
\<close>

definition protoKeys :: "jsstring list" where
  "protoKeys =
    [js ''constructor'', js ''__defineGetter__'', js ''__defineSetter__'',
     js ''hasOwnProperty'', js ''__lookupGetter__'', js ''__lookupSetter__'',
     js ''isPrototypeOf'', js ''propertyIsEnumerable'', js ''toString'', js ''valueOf'',
     js ''__proto__'', js ''toLocaleString'']"

text \<open>
  The argument and the result of \<^verbatim>\<open>canonicalizeSector\<close>: \<^verbatim>\<open>null\<close>, a string, or the
  object inherited under a property name of \<^verbatim>\<open>Object.prototype\<close>. (A numeric cell is
  not covered: its rendering by \<^verbatim>\<open>String\<close> is not modelled.)
\<close>

datatype sector_value = SecNull | SecStr jsstring | SecInherited jsstring

text \<open>\<^verbatim>\<open>String(raw)\<close>, as V8 prints a built-in function and a plain object.\<close>

fun sectorString :: "sector_value \<Rightarrow> jsstring" where
  "sectorString SecNull = js ''null''"
| "sectorString (SecStr s) = s"
| "sectorString (SecInherited p) =
     (if p = js ''__proto__'' then js ''[object Object]''
      else js ''function '' @ (if p = js ''constructor'' then js ''Object'' else p) @
           js ''() { [native code] }'')"

fun sectorFalsy :: "sector_value \<Rightarrow> bool" where
  "sectorFalsy SecNull = True"
| "sectorFalsy (SecStr s) = (s = [])"
| "sectorFalsy (SecInherited p) = False"

definition canonicalizeSector :: "engine \<Rightarrow> sector_value \<Rightarrow> sector_value" where
  "canonicalizeSector E raw =
     (if sectorFalsy raw \<or> jsTrim (sectorString raw) = [] then SecNull
      else let key = toLowerCase E (jsTrim (sectorString raw)) in
        case map_of SECTOR_MAP key of
          Some v \<Rightarrow> SecStr v
        | None \<Rightarrow> if key \<in> set protoKeys then SecInherited key
                  else SecStr (jsTrim (sectorString raw)))"

text \<open>The values of \<^verbatim>\<open>SECTOR_MAP\<close>, each once.\<close>

definition canonicalNames :: "jsstring list" where
  "canonicalNames =
    [js ''Oil & Gas'', js ''Mining'', js ''Infrastructure'', js ''Real Estate'',
     js ''Construction'', js ''Agriculture'', js ''Solar Energy'', js ''Renewable Energy'',
     js ''Telecom'', js ''Government'', js ''Defence'', js ''Urban Development'', js ''Survey'']"

section \<open>Column resolution (queryEngine.js)\<close>

fun firstSome :: "('a \<Rightarrow> 'b option) \<Rightarrow> 'a list \<Rightarrow> 'b option" where
  "firstSome f [] = None"
| "firstSome f (x # xs) = (case f x of Some y \<Rightarrow> Some y | None \<Rightarrow> firstSome f xs)"

text \<open>
  One round of a \<^verbatim>\<open>for (const c of candidates)\<close> loop of \<^verbatim>\<open>findCol\<close>:
  \<^verbatim>\<open>keys.find(p)\<close>, and \<^verbatim>\<open>if (found) return found\<close>, which skips a found key that is
  the empty string.
\<close>

definition foundKey :: "(jsstring \<Rightarrow> bool) \<Rightarrow> jsstring list \<Rightarrow> jsstring option" where
  "foundKey p keys = (case find p keys of Some k \<Rightarrow> if k \<noteq> [] then Some k else None | None \<Rightarrow> None)"

definition findCol :: "engine \<Rightarrow> row list \<Rightarrow> jsstring list \<Rightarrow> jsstring option" where
  "findCol E rows candidates =
     (case rows of
        [] \<Rightarrow> None
      | r0 # _ \<Rightarrow>
          (let keys = objectKeys r0 in
           (case firstSome (\<lambda>c. foundKey (\<lambda>k. toLowerCase E k = toLowerCase E c) keys)
                   candidates of
              Some k \<Rightarrow> Some k
            | None \<Rightarrow>
                firstSome
                  (\<lambda>c. foundKey (\<lambda>k. jsIncludes (toLowerCase E k) (toLowerCase E c)) keys)
                  candidates)))"

text \<open>
  The engine of the closed evaluations. Its \<open>unicodeLower\<close> lowers the ASCII letters and
  keeps every other code unit, which is \<^verbatim>\<open>toLowerCase\<close> on strings whose code units
  outside ASCII have no case (a dash, a currency sign). Its \<open>dateParse\<close> reads the
  date-only form \<^verbatim>\<open>YYYY-MM-DD\<close> of a calendar date, which ECMA-262 defines as midnight
  UTC of that day, and takes every other string for an Invalid Date. Its \<open>numberString\<close>
  prints the integers from 0 below \<open>10 ^ 21\<close>. The closed evaluations stay on such
  inputs.
\<close>

definition isoDateOnly :: "jsstring \<Rightarrow> int option" where
  "isoDateOnly s =
     (if datePattern s then
        (let y = digitsValue (take 4 s); m = digitsValue (take 2 (drop 5 s));
             d = digitsValue (drop 8 s)
         in if civilFromDays (daysFromCivil y m d) = (y, m, d)
            then Some (daysFromCivil y m d * msPerDay) else None)
      else None)"

definition integerString :: "jsnum \<Rightarrow> jsstring" where
  "integerString n = (case n of Fin x \<Rightarrow> decimalString \<lfloor>x\<rfloor> | _ \<Rightarrow> js ''NaN'')"

definition refEngine :: engine where
  "refEngine =
     \<lparr>unicodeLower = map lowerAscii, dateParse = isoDateOnly, numberString = integerString\<rparr>"

section \<open>Confidence score (queryEngine.js)\<close>

text \<open>
  A value of \<^verbatim>\<open>missingCounts\<close>. \<^verbatim>\<open>normalizeBoard\<close> stores a count, or for a title that
  names a property of \<^verbatim>\<open>Object.prototype\<close> a string: \<open>Text k n\<close> is the text that
  \<^verbatim>\<open>String\<close> gives for the built-in function \<^verbatim>\<open>Object.prototype[k]\<close> (its source
  text, which the engine chooses and which starts with the keyword \<^verbatim>\<open>function\<close>),
  followed by \<open>n\<close> characters \<^verbatim>\<open>1\<close>.
\<close>

datatype count_value = Count nat | Text jsstring nat

text \<open>
  The data-quality report of one board. Its counts are numbers of rows and cells of a
  board held in memory: integers far below \<open>2 ^ 53\<close>, which doubles add and multiply
  exactly, so sums and products of counts are kept as exact integers. The operations on
  fractions are double operations: the exact result, rounded.
\<close>

record DataQualityReport =
  totalRows :: nat
  missingCounts :: "(jsstring \<times> count_value) list"
  currencyTypes :: "jsstring list"
  warnings :: "jsstring list"

definition fsub :: "rat \<Rightarrow> rat \<Rightarrow> rat" where
  "fsub a b = roundDouble (a - b)"

definition fmul :: "rat \<Rightarrow> rat \<Rightarrow> rat" where
  "fmul a b = roundDouble (a * b)"

definition fdiv :: "rat \<Rightarrow> rat \<Rightarrow> rat" where
  "fdiv a b = roundDouble (a / b)"

text \<open>The double that a decimal literal of the source denotes.\<close>

definition lit085 :: rat where "lit085 = roundDouble (85 / 100)"
definition lit03 :: rat where "lit03 = roundDouble (3 / 10)"
definition lit005 :: rat where "lit005 = roundDouble (5 / 100)"
definition lit01 :: rat where "lit01 = roundDouble (1 / 10)"

text \<open>
  \<^verbatim>\<open>parseFloat(score.toFixed(2))\<close>: below \<open>10 ^ 21\<close> in magnitude, \<^verbatim>\<open>toFixed(2)\<close> prints
  the integer \<open>n\<close> for which \<open>n / 100\<close> is nearest to the exact value of the double (the
  larger \<open>n\<close> of two), and \<^verbatim>\<open>parseFloat\<close> reads \<open>n / 100\<close> back as a double; from
  \<open>10 ^ 21\<close> on, \<^verbatim>\<open>toFixed\<close> prints the number as \<^verbatim>\<open>String\<close> does, which reads back as
  the number itself.
\<close>

definition roundTo2Decimals :: "rat \<Rightarrow> rat" where
  "roundTo2Decimals x =
     (if 10 ^ 21 \<le> \<bar>x\<bar> then x
      else roundDouble (sgn x * of_int \<lfloor>\<bar>x\<bar> * 100 + 1 / 2\<rfloor> / 100))"

text \<open>
  \<^verbatim>\<open>Object.values(dq.missingCounts).reduce((a, b) => a + b, 0)\<close>: the sum of the counts.
  From the first string among the values on, every \<^verbatim>\<open>+\<close> is a concatenation and the
  result is a string that holds the source text of a function: \<open>None\<close> here.
\<close>

fun addCount :: "nat option \<Rightarrow> count_value \<Rightarrow> nat option" where
  "addCount (Some a) (Count n) = Some (a + n)"
| "addCount (Some a) (Text k n) = None"
| "addCount None v = None"

definition totalMissing :: "DataQualityReport \<Rightarrow> nat option" where
  "totalMissing dq = foldl addCount (Some 0) (map snd (missingCounts dq))"

text \<open>
  One round of the loop \<^verbatim>\<open>for (const dq of qualities)\<close>. A total that is a string
  converts to \<^verbatim>\<open>NaN\<close> in the division (it is not a numeric literal), and \<^verbatim>\<open>NaN\<close> stays
  through every later operation; an infinite score stays through the subtraction of a
  finite number.
\<close>

definition confidenceStep :: "jsnum \<Rightarrow> DataQualityReport \<Rightarrow> jsnum" where
  "confidenceStep score dq =
     (let product = totalRows dq * length (objectKeys (missingCounts dq));
          maxPossible = (if product = 0 then 1 else product)
      in case totalMissing dq of
           None \<Rightarrow> NaN
         | Some tm \<Rightarrow>
             (case score of
                Fin s \<Rightarrow>
                  (let missingRatio = fdiv (of_nat tm) (of_nat maxPossible);
                       score1 = fsub s (fmul missingRatio lit03)
                   in Fin (if 3 < length (warnings dq) then fsub score1 lit005 else score1))
              | other \<Rightarrow> other))"

text \<open>
  \<^verbatim>\<open>computeConfidence(results)\<close>; \<open>dqDeals\<close> and \<open>dqWorkOrders\<close> are
  \<^verbatim>\<open>results.dataQuality.deals\<close> and \<^verbatim>\<open>results.dataQuality.workOrders\<close>, \<open>None\<close> when
  absent.
\<close>

definition qualitiesOf ::
  "DataQualityReport option \<Rightarrow> DataQualityReport option \<Rightarrow> DataQualityReport list" where
  "qualitiesOf dqDeals dqWorkOrders =
     (case dqDeals of None \<Rightarrow> [] | Some d \<Rightarrow> [d]) @
     (case dqWorkOrders of None \<Rightarrow> [] | Some w \<Rightarrow> [w])"

text \<open>
  \<^verbatim>\<open>Math.max(0.1, Math.min(1, parseFloat(score.toFixed(2))))\<close>: \<^verbatim>\<open>Math.min\<close> and
  \<^verbatim>\<open>Math.max\<close> return \<^verbatim>\<open>NaN\<close> when an argument is \<^verbatim>\<open>NaN\<close>.
\<close>

definition scoreOf :: "DataQualityReport list \<Rightarrow> jsnum" where
  "scoreOf qualities =
     (case foldl confidenceStep (Fin lit085) qualities of
        NaN \<Rightarrow> NaN
      | PosInf \<Rightarrow> Fin 1
      | NegInf \<Rightarrow> Fin lit01
      | Fin s \<Rightarrow> Fin (max lit01 (min 1 (roundTo2Decimals s))))"

definition computeConfidence ::
  "DataQualityReport option \<Rightarrow> DataQualityReport option \<Rightarrow> jsnum" where
  "computeConfidence dqDeals dqWorkOrders = scoreOf (qualitiesOf dqDeals dqWorkOrders)"

text \<open>
  Reports for the examples: one without gaps, one with two missing cells in two rows, one
  with five warnings, one with every cell of its only column missing in four rows.
\<close>

definition cleanReport :: DataQualityReport where
  "cleanReport = \<lparr>totalRows = 2, missingCounts = [], currencyTypes = [js ''INR''],
     warnings = [js ''w1'', js ''w2'', js ''w3'']\<rparr>"

definition gappyReport :: DataQualityReport where
  "gappyReport =
     \<lparr>totalRows = 2, missingCounts = [(js ''Status'', Count 1), (js ''Close Date'', Count 1)],
      currencyTypes = [js ''INR'', js ''USD''], warnings = []\<rparr>"

definition noisyReport :: DataQualityReport where
  "noisyReport = \<lparr>totalRows = 2, missingCounts = [], currencyTypes = [],
     warnings = [js ''w1'', js ''w2'', js ''w3'', js ''w4'', js ''w5'']\<rparr>"

definition emptyColumnReport :: DataQualityReport where
  "emptyColumnReport =
     \<lparr>totalRows = 4, missingCounts = [(js ''Notes'', Count 4)], currencyTypes = [], warnings = []\<rparr>"

section \<open>Regular expressions of the metrics (queryEngine.js)\<close>

text \<open>
  The patterns of the program are built from literal text, \<^verbatim>\<open>.\<close>, \<^verbatim>\<open>.*\<close>, \<^verbatim>\<open>\b\<close>,
  concatenation and alternation, all under the flag \<^verbatim>\<open>i\<close>. A state of the matcher is the
  code unit before the current position (if any) and the rest of the input; \<open>rxStep\<close>
  gives every state in which a match of the pattern from a state can end. Without the
  flag \<^verbatim>\<open>u\<close>, a code unit outside ASCII never matches an ASCII letter, so a letter is
  compared through \<open>lowerAscii\<close>.
\<close>

datatype rx = Lit jsstring | Dot | DotStar | WordB | Cat rx rx | Or rx rx

type_synonym rxstate = "int option \<times> jsstring"

definition isLineTerminator :: "int \<Rightarrow> bool" where
  "isLineTerminator c \<longleftrightarrow> c = 10 \<or> c = 13 \<or> c = 8232 \<or> c = 8233"

definition isWordChar :: "int option \<Rightarrow> bool" where
  "isWordChar p =
     (case p of None \<Rightarrow> False
      | Some c \<Rightarrow> (48 \<le> c \<and> c \<le> 57) \<or> (65 \<le> c \<and> c \<le> 90) \<or> (97 \<le> c \<and> c \<le> 122) \<or> c = 95)"

fun litStep :: "jsstring \<Rightarrow> rxstate \<Rightarrow> rxstate list" where
  "litStep [] st = [st]"
| "litStep (l # ls) (p, []) = []"
| "litStep (l # ls) (p, c # r) = (if lowerAscii c = lowerAscii l then litStep ls (Some c, r) else [])"

fun dotStarStep :: "rxstate \<Rightarrow> rxstate list" where
  "dotStarStep (p, []) = [(p, [])]"
| "dotStarStep (p, c # r) =
     (if isLineTerminator c then [(p, c # r)] else dotStarStep (Some c, r) @ [(p, c # r)])"

fun rxStep :: "rx \<Rightarrow> rxstate \<Rightarrow> rxstate list" where
  "rxStep (Lit l) st = litStep l st"
| "rxStep Dot (p, s) = (case s of [] \<Rightarrow> [] | c # r \<Rightarrow> if isLineTerminator c then [] else [(Some c, r)])"
| "rxStep DotStar st = dotStarStep st"
| "rxStep WordB (p, s) =
     (if isWordChar p \<noteq> isWordChar (case s of [] \<Rightarrow> None | c # r \<Rightarrow> Some c) then [(p, s)] else [])"
| "rxStep (Cat a b) st = concat (map (rxStep b) (rxStep a st))"
| "rxStep (Or a b) st = rxStep a st @ rxStep b st"

fun positions :: "rxstate \<Rightarrow> rxstate list" where
  "positions (p, []) = [(p, [])]"
| "positions (p, c # r) = (p, c # r) # positions (Some c, r)"

text \<open>\<^verbatim>\<open>re.test(s)\<close> for a pattern without anchors: a match from some position.\<close>

definition rxTest :: "rx \<Rightarrow> jsstring \<Rightarrow> bool" where
  "rxTest r s = list_ex (\<lambda>st. rxStep r st \<noteq> []) (positions (None, s))"

text \<open>\<^verbatim>\<open>String(v)\<close> of a row value, for \<^verbatim>\<open>re.test(v)\<close>.\<close>

definition valueString :: "engine \<Rightarrow> jsval \<Rightarrow> jsstring" where
  "valueString E v =
     (case v of VNull \<Rightarrow> js ''null'' | VNum n \<Rightarrow> numberString E n | VStr s \<Rightarrow> s)"

text \<open>\<^verbatim>\<open>r[col] || "Unknown"\<close>, and \<^verbatim>\<open>"Unknown"\<close> when the column is not resolved.\<close>

definition cellOrUnknown :: "row \<Rightarrow> jsstring option \<Rightarrow> jsval" where
  "cellOrUnknown r col =
     (case col of
        None \<Rightarrow> VStr (js ''Unknown'')
      | Some c \<Rightarrow> if truthy (getProp r c) then getProp r c else VStr (js ''Unknown''))"

definition RX_stageWon :: rx where
  "RX_stageWon =
     Or (Lit (js ''won'')) (Or (Cat (Lit (js ''closed'')) (Cat DotStar (Lit (js ''won''))))
       (Or (Lit (js ''completed'')) (Lit (js ''delivered''))))"

definition RX_statusWon :: rx where
  "RX_statusWon = Or (Lit (js ''won'')) (Cat (Lit (js ''closed'')) (Cat DotStar (Lit (js ''won''))))"

definition RX_statusLost :: rx where
  "RX_statusLost = Or (Lit (js ''lost'')) (Cat (Lit (js ''closed'')) (Cat DotStar (Lit (js ''lost''))))"

definition RX_completed :: rx where
  "RX_completed = Or (Lit (js ''completed'')) (Or (Lit (js ''complete'')) (Lit (js ''closed'')))"

definition RX_notStarted :: rx where
  "RX_notStarted =
     Or (Lit (js ''not started'')) (Cat (Lit (js ''not'')) (Cat Dot (Lit (js ''started''))))"

definition RX_ongoing :: rx where
  "RX_ongoing =
     Or (Lit (js ''ongoing'')) (Or (Cat (Lit (js ''in'')) (Cat Dot (Lit (js ''progress''))))
       (Lit (js ''executed'')))"

text \<open>
  The string \<open>s\<close> contains the word \<open>w\<close> (given in lower case) when the ASCII letters
  are compared without regard to case.
\<close>

definition containsWord :: "jsstring \<Rightarrow> string \<Rightarrow> bool" where
  "containsWord s w = jsIncludes (map lowerAscii s) (js w)"

section \<open>Deals metrics (queryEngine.js)\<close>

text \<open>
  The counters of \<^verbatim>\<open>computeDealsMetrics\<close> that the close rate is made of. The sums of
  values and the distribution tables of the function are separate accumulators of the
  same loop; they do not enter these fields and are not modelled.
\<close>

record deals_acc =
  a_count :: nat
  a_closedWon :: nat
  a_closedLost :: nat

record deals_metrics =
  dealCount :: nat
  closedWon :: nat
  closedLost :: nat
  closeRate :: rat

definition stageWon :: "engine \<Rightarrow> jsstring option \<Rightarrow> row \<Rightarrow> bool" where
  "stageWon E stageCol r = rxTest RX_stageWon (valueString E (cellOrUnknown r stageCol))"

definition statusWon :: "engine \<Rightarrow> jsstring option \<Rightarrow> row \<Rightarrow> bool" where
  "statusWon E statusCol r = rxTest RX_statusWon (valueString E (cellOrUnknown r statusCol))"

definition statusLost :: "engine \<Rightarrow> jsstring option \<Rightarrow> row \<Rightarrow> bool" where
  "statusLost E statusCol r = rxTest RX_statusLost (valueString E (cellOrUnknown r statusCol))"

text \<open>One round of the loop \<^verbatim>\<open>for (const r of rows)\<close>.\<close>

definition dealsStep ::
  "engine \<Rightarrow> jsstring option \<Rightarrow> jsstring option \<Rightarrow> deals_acc \<Rightarrow> row \<Rightarrow> deals_acc" where
  "dealsStep E stageCol statusCol acc r =
     (let won1 = a_closedWon acc + (if stageWon E stageCol r then 1 else 0);
          won2 = won1 + (if statusWon E statusCol r then 1 else 0)
      in \<lparr>a_count = a_count acc + 1, a_closedWon = won2,
          a_closedLost = a_closedLost acc + (if statusLost E statusCol r then 1 else 0)\<rparr>)"

definition dealStageCol :: "engine \<Rightarrow> row list \<Rightarrow> jsstring option" where
  "dealStageCol E rows = findCol E rows [js ''deal stage'', js ''stage'', js ''deal_stage'']"

definition dealStatusCol :: "engine \<Rightarrow> row list \<Rightarrow> jsstring option" where
  "dealStatusCol E rows = findCol E rows [js ''deal status'', js ''status'']"

definition computeDealsMetrics :: "engine \<Rightarrow> row list \<Rightarrow> deals_metrics" where
  "computeDealsMetrics E rows =
     (let acc = foldl (dealsStep E (dealStageCol E rows) (dealStatusCol E rows))
                  \<lparr>a_count = 0, a_closedWon = 0, a_closedLost = 0\<rparr> rows;
          won = min (a_closedWon acc) (a_count acc)
      in \<lparr>dealCount = a_count acc, closedWon = won, closedLost = a_closedLost acc,
          closeRate = (if a_count acc = 0 then 0 else fdiv (of_nat won) (of_nat (a_count acc)))\<rparr>)"

section \<open>Work-order metrics (queryEngine.js)\<close>

text \<open>
  \<^verbatim>\<open>new Date(v)\<close> for a truthy row value: a string is parsed by the engine, a number is
  a time value (truncated, invalid beyond 8.64e15 ms).
\<close>

definition dateOfValue :: "engine \<Rightarrow> jsval \<Rightarrow> int option" where
  "dateOfValue E v =
     (case v of
        VStr s \<Rightarrow> dateParse E s
      | VNum (Fin x) \<Rightarrow> if \<bar>x\<bar> \<le> 8640000000000000 then Some (truncToInt x) else None
      | VNum _ \<Rightarrow> None
      | VNull \<Rightarrow> Some 0)"

text \<open>
  The counters of \<^verbatim>\<open>computeWorkOrdersMetrics\<close> that classify the rows; \<open>w_other\<close> counts
  the rows of the last branch, which the source counts in \<^verbatim>\<open>open\<close> only. The durations,
  amounts and distribution tables are separate accumulators and are not modelled.
\<close>

record wo_acc =
  w_open :: nat
  w_closed :: nat
  w_overdue :: nat
  w_completed :: nat
  w_notStarted :: nat
  w_ongoing :: nat
  w_other :: nat

datatype exec_class = Completed | NotStarted | Ongoing | OtherOpen

definition classify :: "engine \<Rightarrow> jsstring option \<Rightarrow> row \<Rightarrow> exec_class" where
  "classify E execStatusCol r =
     (let execStatus = valueString E (cellOrUnknown r execStatusCol)
      in if rxTest RX_completed execStatus then Completed
         else if rxTest RX_notStarted execStatus then NotStarted
         else if rxTest RX_ongoing execStatus then Ongoing
         else OtherOpen)"

text \<open>\<^verbatim>\<open>endCol && r[endCol]\<close>, then \<^verbatim>\<open>!isNaN(due) && due < now\<close>.\<close>

definition pastDue :: "engine \<Rightarrow> int \<Rightarrow> jsstring option \<Rightarrow> row \<Rightarrow> bool" where
  "pastDue E now endCol r =
     (case endCol of
        None \<Rightarrow> False
      | Some c \<Rightarrow>
          truthy (getProp r c) \<and>
          (case dateOfValue E (getProp r c) of None \<Rightarrow> False | Some due \<Rightarrow> due < now))"

definition woStep ::
  "engine \<Rightarrow> int \<Rightarrow> jsstring option \<Rightarrow> jsstring option \<Rightarrow> wo_acc \<Rightarrow> row \<Rightarrow> wo_acc" where
  "woStep E now execStatusCol endCol acc r =
     (case classify E execStatusCol r of
        Completed \<Rightarrow> acc\<lparr>w_closed := w_closed acc + 1, w_completed := w_completed acc + 1\<rparr>
      | NotStarted \<Rightarrow> acc\<lparr>w_notStarted := w_notStarted acc + 1, w_open := w_open acc + 1\<rparr>
      | Ongoing \<Rightarrow>
          acc\<lparr>w_ongoing := w_ongoing acc + 1, w_open := w_open acc + 1,
              w_overdue := w_overdue acc + (if pastDue E now endCol r then 1 else 0)\<rparr>
      | OtherOpen \<Rightarrow>
          acc\<lparr>w_other := w_other acc + 1, w_open := w_open acc + 1,
              w_overdue := w_overdue acc + (if pastDue E now endCol r then 1 else 0)\<rparr>)"

text \<open>\<open>now\<close> is the time value of \<^verbatim>\<open>new Date()\<close> at the call.\<close>

definition execStatusColOf :: "engine \<Rightarrow> row list \<Rightarrow> jsstring option" where
  "execStatusColOf E rows =
     findCol E rows [js ''execution status'', js ''status'', js ''state'', js ''work order status'']"

definition endColOf :: "engine \<Rightarrow> row list \<Rightarrow> jsstring option" where
  "endColOf E rows =
     findCol E rows [js ''probable end date'', js ''end date'', js ''completion date'',
       js ''due date'', js ''end_date'']"

definition computeWorkOrdersMetrics :: "engine \<Rightarrow> int \<Rightarrow> row list \<Rightarrow> wo_acc" where
  "computeWorkOrdersMetrics E now rows =
     foldl (woStep E now (execStatusColOf E rows) (endColOf E rows))
       \<lparr>w_open = 0, w_closed = 0, w_overdue = 0, w_completed = 0, w_notStarted = 0,
        w_ongoing = 0, w_other = 0\<rparr> rows"

section \<open>Cross-board analysis (queryEngine.js)\<close>

text \<open>\<^verbatim>\<open>(r._name || "").toLowerCase()\<close>: a truthy number has no such method.\<close>

definition lowerName :: "engine \<Rightarrow> row \<Rightarrow> jserror + jsstring" where
  "lowerName E r =
     (case getProp r (js ''_name'') of
        VStr s \<Rightarrow> Inr (toLowerCase E s)
      | VNull \<Rightarrow> Inr (toLowerCase E [])
      | VNum n \<Rightarrow> if truthy (VNum n) then Inl TypeError else Inr (toLowerCase E []))"

fun joinWith :: "jsstring \<Rightarrow> jsstring list \<Rightarrow> jsstring" where
  "joinWith sep [] = []"
| "joinWith sep [x] = x"
| "joinWith sep (x # y # ys) = x @ sep @ joinWith sep (y # ys)"

definition stringOf :: "jsval \<Rightarrow> jsstring option" where
  "stringOf v = (case v of VStr s \<Rightarrow> Some s | _ \<Rightarrow> None)"

text \<open>\<^verbatim>\<open>Object.values(r).filter((v) => typeof v === "string").join(" ").toLowerCase()\<close>.\<close>

definition allText :: "engine \<Rightarrow> row \<Rightarrow> jsstring" where
  "allText E r =
     toLowerCase E (joinWith [32] (List.map_filter (\<lambda>k. stringOf (getProp r k)) (objectKeys r)))"

fun mapE :: "('a \<Rightarrow> jserror + 'b) \<Rightarrow> 'a list \<Rightarrow> jserror + 'b list" where
  "mapE f [] = Inr []"
| "mapE f (x # xs) =
     (case f x of
        Inl e \<Rightarrow> Inl e
      | Inr y \<Rightarrow> (case mapE f xs of Inl e \<Rightarrow> Inl e | Inr ys \<Rightarrow> Inr (y # ys)))"

definition nameLinked :: "jsstring list \<Rightarrow> jsstring \<Rightarrow> jsstring \<Rightarrow> bool" where
  "nameLinked dealNames woName allWoText =
     list_ex (\<lambda>d. \<not> length d < 3 \<and>
                   (jsIncludes woName d \<or> jsIncludes d woName \<or> jsIncludes allWoText d))
       dealNames"

text \<open>
  \<^verbatim>\<open>dealsRows.map((r) => r[sectorCol]).filter(Boolean).map((s) => s.toLowerCase())\<close>, then
  the distinct values: a truthy number has no \<^verbatim>\<open>toLowerCase\<close>.
\<close>

definition lowerSector :: "engine \<Rightarrow> jsval \<Rightarrow> jserror + jsstring" where
  "lowerSector E v = (case v of VStr s \<Rightarrow> Inr (toLowerCase E s) | _ \<Rightarrow> Inl TypeError)"

definition dealSectorsOf :: "engine \<Rightarrow> row list \<Rightarrow> jserror + jsstring list" where
  "dealSectorsOf E dealsRows =
     (case findCol E dealsRows [js ''sector'', js ''industry'', js ''vertical''] of
        None \<Rightarrow> Inr []
      | Some c \<Rightarrow>
          (case mapE (lowerSector E) (filter truthy (map (\<lambda>r. getProp r c) dealsRows)) of
             Inl e \<Rightarrow> Inl e
           | Inr ss \<Rightarrow> Inr (rev (remdups (rev ss)))))"

text \<open>
  The two counts of \<^verbatim>\<open>crossBoardAnalysis\<close>. Its list of insight sentences is built
  after the counts, reads the names again and the metrics, raises nothing new, and is
  not modelled.
\<close>

record cross_result =
  linkedWorkOrders :: nat
  sectorLinkedWorkOrders :: nat

definition crossBoardAnalysis :: "engine \<Rightarrow> row list \<Rightarrow> row list \<Rightarrow> jserror + cross_result" where
  "crossBoardAnalysis E dealsRows woRows =
     (case mapE (lowerName E) dealsRows of
        Inl e \<Rightarrow> Inl e
      | Inr dealNames \<Rightarrow>
          (case mapE (lowerName E) woRows of
             Inl e \<Rightarrow> Inl e
           | Inr woNames \<Rightarrow>
               (case dealSectorsOf E dealsRows of
                  Inl e \<Rightarrow> Inl e
                | Inr dealSectors \<Rightarrow>
                    (let linkedWOs =
                           filter (\<lambda>(n, r). nameLinked dealNames n (allText E r)) (zip woNames woRows);
                         sectorLinkedWOs =
                           (if dealSectors = [] then []
                            else filter (\<lambda>r. list_ex (\<lambda>sec. jsIncludes (allText E r) sec) dealSectors)
                                   woRows)
                     in Inr \<lparr>linkedWorkOrders = max (length linkedWOs) (length sectorLinkedWOs),
                             sectorLinkedWorkOrders = length sectorLinkedWOs\<rparr>))))"

section \<open>Rows of the examples\<close>

definition dealRow :: "string \<Rightarrow> string \<Rightarrow> string \<Rightarrow> string \<Rightarrow> row" where
  "dealRow i n stage status =
     [(js ''_id'', VStr (js i)), (js ''_name'', VStr (js n)),
      (js ''Deal Stage'', VStr (js stage)), (js ''Deal Status'', VStr (js status))]"

definition woRow :: "string \<Rightarrow> string \<Rightarrow> string \<Rightarrow> string \<Rightarrow> row" where
  "woRow i n status endDate =
     [(js ''_id'', VStr (js i)), (js ''_name'', VStr (js n)),
      (js ''Execution Status'', VStr (js status)), (js ''Probable End Date'', VStr (js endDate))]"

text \<open>Three deals: one won in its stage and in its status, two still open.\<close>

definition pipelineRows :: "row list" where
  "pipelineRows =
     [dealRow ''1'' ''A'' ''Closed Won'' ''Won'', dealRow ''2'' ''B'' ''Lead'' ''Open'',
      dealRow ''3'' ''C'' ''Proposal'' ''Open'']"

text \<open>A row that holds only its identifier and its display name.\<close>

definition namedRow :: "string \<Rightarrow> jsstring \<Rightarrow> row" where
  "namedRow i n = [(js ''_id'', VStr (js i)), (js ''_name'', VStr n)]"

text \<open>\<^verbatim>\<open>"Acme Solar - Phase 1"\<close> with the em dash (U+2014) of the specification.\<close>

definition acmePhase1 :: jsstring where
  "acmePhase1 = js ''Acme Solar '' @ [8212] @ js '' Phase 1''"

text \<open>The time value of 2024-01-01T00:00:00Z.\<close>

definition newYear2024 :: int where
  "newYear2024 = 1704067200000"

section \<open>Board normalization (normalizer.js)\<close>

text \<open>
  A raw board as the fetch returns it. The \<^verbatim>\<open>value\<close> of a cell is a JSON text:
  \<open>NoValue\<close> stands for \<^verbatim>\<open>null\<close> and the empty string, \<open>BadJson\<close> for a text that
  \<^verbatim>\<open>JSON.parse\<close> rejects, \<open>Payload j\<close> for a text that parses to \<open>j\<close>.
\<close>

datatype json =
  JNull | JBool bool | JNum jsnum | JStr jsstring | JArr "json list" | JObj "(jsstring \<times> json) list"

datatype cell_payload = NoValue | BadJson | Payload json

record column =
  col_id :: jsstring
  col_title :: jsstring
  col_type :: jsstring

record cell =
  cv_id :: jsstring
  cv_text :: "jsstring option"
  cv_value :: cell_payload
  cv_type :: "jsstring option"
  cv_title :: "jsstring option"

record item =
  item_id :: jsstring
  item_name :: jsstring
  column_values :: "cell list"

record board =
  board_name :: jsstring
  columns :: "column list"
  items :: "item list"

fun jsonTruthy :: "json \<Rightarrow> bool" where
  "jsonTruthy JNull = False"
| "jsonTruthy (JBool b) = b"
| "jsonTruthy (JNum n) = (n \<noteq> Fin 0 \<and> n \<noteq> NaN)"
| "jsonTruthy (JStr s) = (s \<noteq> [])"
| "jsonTruthy (JArr xs) = True"
| "jsonTruthy (JObj kvs) = True"

text \<open>\<^verbatim>\<open>String(v)\<close> of a parsed value; in a joined array \<^verbatim>\<open>null\<close> prints as nothing.\<close>

fun jsonString :: "engine \<Rightarrow> json \<Rightarrow> jsstring" where
  "jsonString E JNull = js ''null''"
| "jsonString E (JBool b) = (if b then js ''true'' else js ''false'')"
| "jsonString E (JNum n) = numberString E n"
| "jsonString E (JStr s) = s"
| "jsonString E (JArr xs) =
     joinWith [44] (map (\<lambda>x. if x = JNull then [] else jsonString E x) xs)"
| "jsonString E (JObj kvs) = js ''[object Object]''"

definition jsonJoin :: "engine \<Rightarrow> jsstring \<Rightarrow> json list \<Rightarrow> jsstring" where
  "jsonJoin E sep xs = joinWith sep (map (\<lambda>x. if x = JNull then [] else jsonString E x) xs)"

text \<open>
  \<^verbatim>\<open>parsed?.p\<close> when it is truthy, for the property names the function reads (none of
  them is a property of a prototype): only an object has such a property.
\<close>

definition truthyProp :: "json \<Rightarrow> string \<Rightarrow> json option" where
  "truthyProp parsed p =
     (case parsed of
        JObj kvs \<Rightarrow>
          (case map_of kvs (js p) of
             Some v \<Rightarrow> if jsonTruthy v then Some v else None
           | None \<Rightarrow> None)
      | _ \<Rightarrow> None)"

text \<open>
  \<^verbatim>\<open>extractFromValue(valueStr, colType)\<close>; \<open>None\<close> is \<^verbatim>\<open>null\<close>. Every exception inside
  is caught and gives \<^verbatim>\<open>null\<close>: a text that does not parse, and \<^verbatim>\<open>labels.join\<close> on a
  value that is not an array.
\<close>

definition extractFromValue :: "engine \<Rightarrow> cell_payload \<Rightarrow> jsstring option \<Rightarrow> json option" where
  "extractFromValue E valueStr colType =
     (case valueStr of
        NoValue \<Rightarrow> None
      | BadJson \<Rightarrow> None
      | Payload parsed \<Rightarrow>
          if colType = Some (js ''color'') \<or> colType = Some (js ''status'') then
            (case truthyProp parsed ''label'' of
               Some v \<Rightarrow> Some v
             | None \<Rightarrow> truthyProp parsed ''text'')
          else if colType = Some (js ''dropdown'') then
            (if truthyProp parsed ''ids'' \<noteq> None then None
             else
               (case truthyProp parsed ''labels'' of
                  Some (JArr xs) \<Rightarrow>
                    if jsonJoin E (js '', '') xs = [] then None
                    else Some (JStr (jsonJoin E (js '', '') xs))
                | _ \<Rightarrow> None))
          else if colType = Some (js ''date'') then truthyProp parsed ''date''
          else if colType = Some (js ''numeric'') then
            (if jsonTruthy parsed then Some (JStr (jsonString E parsed)) else None)
          else
            (case parsed of
               JStr s \<Rightarrow> Some (JStr s)
             | _ \<Rightarrow>
                 (case truthyProp parsed ''text'' of
                    Some v \<Rightarrow> Some v
                  | None \<Rightarrow>
                      (case truthyProp parsed ''value'' of
                         Some v \<Rightarrow> Some (JStr (jsonString E v))
                       | None \<Rightarrow> truthyProp parsed ''label''))))"

text \<open>\<^verbatim>\<open>normalizeText\<close> on a string: trimmed, each run of white space one space.\<close>

fun collapseFrom :: "bool \<Rightarrow> jsstring \<Rightarrow> jsstring" where
  "collapseFrom inRun [] = []"
| "collapseFrom inRun (c # r) =
     (if isWhiteSpace c then (if inRun then collapseFrom True r else 32 # collapseFrom True r)
      else c # collapseFrom False r)"

definition collapseSpaces :: "jsstring \<Rightarrow> jsstring" where
  "collapseSpaces s = collapseFrom False s"

definition normalizeText :: "jsstring option \<Rightarrow> jsstring option" where
  "normalizeText raw =
     (case raw of
        None \<Rightarrow> None
      | Some r \<Rightarrow> if r = [] \<or> jsTrim r = [] then None else Some (collapseSpaces (jsTrim r)))"

definition RX_dateWord :: rx where
  "RX_dateWord = Cat WordB (Cat (Lit (js ''date'')) WordB)"

definition RX_quantityLike :: rx where
  "RX_quantityLike =
     Or (Lit (js ''quantity'')) (Or (Lit (js ''billed'')) (Or (Lit (js ''invoice''))
       (Lit (js ''balance''))))"

definition moneyWords :: "jsstring list" where
  "moneyWords =
     [js ''value'', js ''amount'', js ''price'', js ''revenue'', js ''billed'', js ''collected'',
      js ''receivable'', js ''quantity'']"

text \<open>\<^verbatim>\<open>cv.column?.title || cv.id\<close>.\<close>

definition cellTitle :: "cell \<Rightarrow> jsstring" where
  "cellTitle cv = (case cv_title cv of None \<Rightarrow> cv_id cv | Some t \<Rightarrow> if t = [] then cv_id cv else t)"

text \<open>
  \<^verbatim>\<open>cv.type || columnMap[cv.id]?.type\<close>; in \<^verbatim>\<open>columnMap\<close> a later column of the same
  id replaces an earlier one.
\<close>

definition cellType :: "column list \<Rightarrow> cell \<Rightarrow> jsstring option" where
  "cellType cols cv =
     (case cv_type cv of
        Some t \<Rightarrow> if t = [] then map_of (rev (map (\<lambda>c. (col_id c, col_type c)) cols)) (cv_id cv)
                  else Some t
      | None \<Rightarrow> map_of (rev (map (\<lambda>c. (col_id c, col_type c)) cols)) (cv_id cv))"

text \<open>
  The text of a cell: \<^verbatim>\<open>cv.text ?? ""\<close>, or when that is blank and there is a value,
  what \<^verbatim>\<open>extractFromValue\<close> finds. The test \<^verbatim>\<open>rawText.trim() === ""\<close> that follows
  raises a TypeError on a truthy value that is not a string.
\<close>

definition cellText :: "engine \<Rightarrow> column list \<Rightarrow> cell \<Rightarrow> jserror + jsstring" where
  "cellText E cols cv =
     (let t0 = (case cv_text cv of None \<Rightarrow> [] | Some t \<Rightarrow> t) in
      if (t0 = [] \<or> jsTrim t0 = []) \<and> cv_value cv \<noteq> NoValue then
        (case extractFromValue E (cv_value cv) (cellType cols cv) of
           None \<Rightarrow> Inr []
         | Some (JStr s) \<Rightarrow> Inr s
         | Some v \<Rightarrow> if jsonTruthy v then Inl TypeError else Inr [])
      else Inr t0)"

text \<open>
  The state of the two loops: the row under construction and the report. \<open>st_row\<close>
  holds the own properties of the row, and \<open>st_inherits\<close> tells whether its prototype is
  still \<^verbatim>\<open>Object.prototype\<close>.
\<close>

record nb_state =
  st_row :: row
  st_inherits :: bool
  st_rows :: "row list"
  st_missing :: "(jsstring \<times> count_value) list"
  st_currencies :: "jsstring list"
  st_warnings :: "jsstring list"


text \<open>
  \<^verbatim>\<open>missingCounts[title] = (missingCounts[title] || 0) + 1\<close>. \<^verbatim>\<open>missingCounts\<close> is an
  object literal, so for a title without an own property the read finds what
  \<^verbatim>\<open>Object.prototype\<close> holds under that name: a built-in function, a truthy object, to
  which \<^verbatim>\<open>+ 1\<close> appends the character \<^verbatim>\<open>1\<close> after its source text; the string is stored
  as an own property, and the next round appends another \<^verbatim>\<open>1\<close>. For \<^verbatim>\<open>__proto__\<close> the
  read finds the prototype itself and the assignment runs the inherited setter, which
  ignores a string: nothing is stored.
\<close>

definition bumpMissing ::
  "(jsstring \<times> count_value) list \<Rightarrow> jsstring \<Rightarrow> (jsstring \<times> count_value) list" where
  "bumpMissing m t =
     (case map_of m t of
        Some (Count n) \<Rightarrow> setProp m t (Count (n + 1))
      | Some (Text k n) \<Rightarrow> setProp m t (Text k (n + 1))
      | None \<Rightarrow>
          if t = js ''__proto__'' then m
          else if t \<in> set protoKeys then setProp m t (Text t 1)
          else setProp m t (Count 1))"

text \<open>
  \<^verbatim>\<open>row[k] = v\<close> for \<^verbatim>\<open>null\<close>, a string or a number. Every property of
  \<^verbatim>\<open>Object.prototype\<close> but \<^verbatim>\<open>__proto__\<close> is a writable data property, so the assignment
  creates an own property of the row. \<^verbatim>\<open>__proto__\<close> is an accessor: while the row
  inherits it, the assignment runs its setter, which makes \<^verbatim>\<open>null\<close> the prototype of
  the row and ignores a string or a number, and the row gets no own property. Once the
  prototype is \<^verbatim>\<open>null\<close> the assignment creates an own property like any other.
\<close>

definition assignRow :: "nb_state \<Rightarrow> jsstring \<Rightarrow> jsval \<Rightarrow> nb_state" where
  "assignRow st k v =
     (if k = js ''__proto__'' \<and> st_inherits st then st\<lparr>st_inherits := (v \<noteq> VNull)\<rparr>
      else st\<lparr>st_row := setProp (st_row st) k v\<rparr>)"

text \<open>
  \<^verbatim>\<open>!row[k]\<close>: the own property when there is one, else the truthy object that the row
  inherits under a property name of \<^verbatim>\<open>Object.prototype\<close>, else \<^verbatim>\<open>undefined\<close>.
\<close>

definition rowFalsy :: "nb_state \<Rightarrow> jsstring \<Rightarrow> bool" where
  "rowFalsy st k =
     (case map_of (st_row st) k of
        Some v \<Rightarrow> \<not> truthy v
      | None \<Rightarrow> \<not> (st_inherits st \<and> k \<in> set protoKeys))"

definition isDateCol :: "jsstring option \<Rightarrow> jsstring \<Rightarrow> bool" where
  "isDateCol colType title \<longleftrightarrow> colType = Some (js ''date'') \<or> rxTest RX_dateWord title"

definition isMoneyCol :: "engine \<Rightarrow> jsstring option \<Rightarrow> jsstring \<Rightarrow> bool" where
  "isMoneyCol E colType title \<longleftrightarrow>
     colType = Some (js ''numeric'') \<or> colType = Some (js ''numbers'') \<or>
     list_ex (\<lambda>w. jsIncludes (toLowerCase E title) w) moneyWords"

definition dateWarning :: "jsstring \<Rightarrow> jsstring \<Rightarrow> jsstring" where
  "dateWarning rawText title =
     js ''Unparseable date '' @ [34] @ rawText @ [34] @ js '' in column '' @ [34] @ title @ [34]"

text \<open>One round of the loop \<^verbatim>\<open>for (const cv of item.column_values)\<close>.\<close>

definition cellStep :: "engine \<Rightarrow> column list \<Rightarrow> nb_state \<Rightarrow> cell \<Rightarrow> jserror + nb_state" where
  "cellStep E cols st cv =
     (let title = cellTitle cv; colType = cellType cols cv in
      case cellText E cols cv of
        Inl e \<Rightarrow> Inl e
      | Inr rawText \<Rightarrow>
          if rawText = [] \<or> jsTrim rawText = [] then
            Inr (assignRow (st\<lparr>st_missing := bumpMissing (st_missing st) title\<rparr>) title VNull)
          else if isDateCol colType title \<and> \<not> rxTest RX_quantityLike title then
            (case normalizeDate E (Some rawText) of
               Inl e \<Rightarrow> Inl e
             | Inr d \<Rightarrow>
                 (let st1 = assignRow st title (case d of None \<Rightarrow> VNull | Some x \<Rightarrow> VStr x)
                  in Inr (if rowFalsy st1 title
                          then st1\<lparr>st_warnings := st_warnings st1 @ [dateWarning rawText title]\<rparr>
                          else st1)))
          else if isMoneyCol E colType title then
            (let m = normalizeCurrency (Some rawText);
                 st1 = assignRow st title (case amount m of None \<Rightarrow> VNull | Some n \<Rightarrow> VNum n);
                 st2 = assignRow st1 (title @ js ''_currency'')
                         (case currency m of None \<Rightarrow> VNull | Some c \<Rightarrow> VStr c)
             in Inr (st2\<lparr>st_currencies :=
                            (case currency m of
                               None \<Rightarrow> st_currencies st
                             | Some c \<Rightarrow>
                                 if c = [] \<or> c \<in> set (st_currencies st) then st_currencies st
                                 else st_currencies st @ [c])\<rparr>))
          else
            Inr (assignRow st title
                   (case normalizeText (Some rawText) of None \<Rightarrow> VNull | Some t \<Rightarrow> VStr t)))"

fun foldE :: "('s \<Rightarrow> 'a \<Rightarrow> jserror + 's) \<Rightarrow> 's \<Rightarrow> 'a list \<Rightarrow> jserror + 's" where
  "foldE f s [] = Inr s"
| "foldE f s (x # xs) = (case f s x of Inl e \<Rightarrow> Inl e | Inr s' \<Rightarrow> foldE f s' xs)"

text \<open>
  One round of the loop \<^verbatim>\<open>for (const item of items)\<close>. A row of the result is the list
  of the own properties of the row object.
\<close>

definition itemStep :: "engine \<Rightarrow> column list \<Rightarrow> nb_state \<Rightarrow> item \<Rightarrow> jserror + nb_state" where
  "itemStep E cols st it =
     (case foldE (cellStep E cols)
             (st\<lparr>st_row := [(js ''_id'', VStr (item_id it)), (js ''_name'', VStr (item_name it))],
                 st_inherits := True\<rparr>)
             (column_values it) of
        Inl e \<Rightarrow> Inl e
      | Inr st' \<Rightarrow> Inr (st'\<lparr>st_rows := st_rows st' @ [st_row st']\<rparr>))"

record normalized =
  boardName :: jsstring
  rows :: "row list"
  dataQuality :: DataQualityReport

definition normalizeBoard :: "engine \<Rightarrow> board \<Rightarrow> jserror + normalized" where
  "normalizeBoard E b =
     (case foldE (itemStep E (columns b))
             \<lparr>st_row = [], st_inherits = True, st_rows = [], st_missing = [], st_currencies = [],
              st_warnings = []\<rparr>
             (items b) of
        Inl e \<Rightarrow> Inl e
      | Inr st \<Rightarrow>
          Inr \<lparr>boardName = board_name b, rows = st_rows st,
               dataQuality =
                 \<lparr>totalRows = length (st_rows st), missingCounts = st_missing st,
                  currencyTypes = st_currencies st,
                  warnings =
                    (if 1 < length (st_currencies st)
                     then st_warnings st @
                          [js ''Mixed currencies detected: '' @ joinWith (js '', '') (st_currencies st)]
                     else st_warnings st)\<rparr>\<rparr>)"

text \<open>The board of the test suite, and two boards for the counterexamples.\<close>

definition textCell :: "string \<Rightarrow> string \<Rightarrow> string \<Rightarrow> string \<Rightarrow> cell" where
  "textCell i t ty ti =
     \<lparr>cv_id = js i, cv_text = Some (js t), cv_value = NoValue, cv_type = Some (js ty),
      cv_title = Some (js ti)\<rparr>"

definition mockBoard :: board where
  "mockBoard =
     \<lparr>board_name = js ''Test Board'',
      columns =
        [\<lparr>col_id = js ''status'', col_title = js ''Status'', col_type = js ''status''\<rparr>,
         \<lparr>col_id = js ''date4'', col_title = js ''Close Date'', col_type = js ''date''\<rparr>,
         \<lparr>col_id = js ''numbers'', col_title = js ''Deal Value'', col_type = js ''numeric''\<rparr>],
      items =
        [\<lparr>item_id = js ''1'', item_name = js ''Deal Alpha'',
          column_values =
            [textCell ''status'' ''Won'' ''status'' ''Status'',
             textCell ''date4'' ''2024-06-15'' ''date'' ''Close Date'',
             (textCell ''numbers'' '''' ''numeric'' ''Deal Value'')
               \<lparr>cv_text := Some (8377 # js ''1,00,000'')\<rparr>]\<rparr>,
         \<lparr>item_id = js ''2'', item_name = js ''Deal Beta'',
          column_values =
            [textCell ''status'' '''' ''status'' ''Status'',
             textCell ''date4'' '''' ''date'' ''Close Date'',
             textCell ''numbers'' ''$50,000'' ''numeric'' ''Deal Value'']\<rparr>]\<rparr>"






text \<open>A board with a column titled \<^verbatim>\<open>constructor\<close>, whose only cell is blank.\<close>

definition constructorBoard :: board where
  "constructorBoard =
     \<lparr>board_name = js ''Suppliers'',
      columns = [\<lparr>col_id = js ''text1'', col_title = js ''constructor'', col_type = js ''text''\<rparr>],
      items =
        [\<lparr>item_id = js ''1'', item_name = js ''Deal Alpha'',
          column_values = [textCell ''text1'' [] ''text'' ''constructor'']\<rparr>]\<rparr>"

text \<open>The report that \<^verbatim>\<open>normalizeBoard\<close> gives for that board.\<close>

definition constructorReport :: DataQualityReport where
  "constructorReport =
     \<lparr>totalRows = 1, missingCounts = [(js ''constructor'', Text (js ''constructor'') 1)],
      currencyTypes = [], warnings = []\<rparr>"

text \<open>The expected result for the board of the test suite.\<close>

definition mockRows :: "row list" where
  "mockRows =
     [[(js ''_id'', VStr (js ''1'')), (js ''_name'', VStr (js ''Deal Alpha'')),
       (js ''Status'', VStr (js ''Won'')), (js ''Close Date'', VStr (js ''2024-06-15'')),
       (js ''Deal Value'', VNum (Fin 100000)), (js ''Deal Value_currency'', VStr (js ''INR''))],
      [(js ''_id'', VStr (js ''2'')), (js ''_name'', VStr (js ''Deal Beta'')),
       (js ''Status'', VNull), (js ''Close Date'', VNull),
       (js ''Deal Value'', VNum (Fin 50000)), (js ''Deal Value_currency'', VStr (js ''USD''))]]"

definition mockReport :: DataQualityReport where
  "mockReport =
     \<lparr>totalRows = 2, missingCounts = [(js ''Status'', Count 1), (js ''Close Date'', Count 1)],
      currencyTypes = [js ''INR'', js ''USD''],
      warnings = [js ''Mixed currencies detected: INR, USD'']\<rparr>"

section \<open>Board fetch (mondayClient.js)\<close>

text \<open>
  \<^verbatim>\<open>fetchBoard(boardId)\<close> over the outcome of \<^verbatim>\<open>mondayRequest\<close> for the board query:
  an exception (\<^verbatim>\<open>getToken\<close> throws when the API token is not configured), or
  \<^verbatim>\<open>{ error, data }\<close>, of which \<open>rq_boards\<close> is \<^verbatim>\<open>data?.boards\<close>.
\<close>

record request_result =
  rq_error :: "jsstring option"
  rq_boards :: "board list option"

record fetch_result =
  fr_error :: "jsstring option"
  fr_board :: "board option"

definition firstBoard :: "request_result \<Rightarrow> jsstring \<Rightarrow> fetch_result" where
  "firstBoard rq boardId =
     (case rq_boards rq of
        Some (b # bs) \<Rightarrow> \<lparr>fr_error = None, fr_board = Some b\<rparr>
      | _ \<Rightarrow> \<lparr>fr_error = Some (js ''Board '' @ boardId @ js '' not found or empty.''),
               fr_board = None\<rparr>)"

definition fetchBoard ::
  "(jsstring \<Rightarrow> jserror + request_result) \<Rightarrow> jsstring \<Rightarrow> jserror + fetch_result" where
  "fetchBoard mondayRequest boardId =
     (case mondayRequest boardId of
        Inl e \<Rightarrow> Inl e
      | Inr rq \<Rightarrow>
          (case rq_error rq of
             None \<Rightarrow> Inr (firstBoard rq boardId)
           | Some e \<Rightarrow>
               if e \<noteq> [] then Inr \<lparr>fr_error = Some e, fr_board = None\<rparr>
               else Inr (firstBoard rq boardId)))"

section \<open>Plan execution (queryEngine.js)\<close>

text \<open>
  The environment variables, the plan (\<open>filter_sector\<close> is \<^verbatim>\<open>plan.filters?.sector\<close>) and
  the result object, each field \<open>None\<close> when the property is absent. The quarter filter
  reads the quarterly revenue table of the deals metrics, which is not modelled, so the
  result has no \<^verbatim>\<open>quarterFocus\<close>.
\<close>

record env =
  DEALS_BOARD_ID :: "jsstring option"
  WORK_ORDERS_BOARD_ID :: "jsstring option"

record plan =
  data_sources :: "jsstring list"
  filter_sector :: "jsstring option"

record exec_result =
  x_error :: "jsstring option"
  m_deals :: "deals_metrics option"
  m_workOrders :: "wo_acc option"
  m_crossBoard :: "cross_result option"
  m_filteredDeals :: "deals_metrics option"
  dq_deals :: "DataQualityReport option"
  dq_workOrders :: "DataQualityReport option"
  t_deals :: "row list option"
  t_workOrders :: "row list option"
  t_filteredDeals :: "row list option"
  confidence :: "jsnum option"

text \<open>\<^verbatim>\<open>return { error }\<close>: a result with the error message and nothing else.\<close>

definition errorResult :: "jsstring \<Rightarrow> exec_result" where
  "errorResult msg =
     \<lparr>x_error = Some msg, m_deals = None, m_workOrders = None, m_crossBoard = None,
      m_filteredDeals = None, dq_deals = None, dq_workOrders = None, t_deals = None,
      t_workOrders = None, t_filteredDeals = None, confidence = None\<rparr>"

text \<open>
  How the block for one source ends: with an exception, with a \<^verbatim>\<open>return\<close> from
  \<^verbatim>\<open>executePlan\<close>, or with the normalized board. \<^verbatim>\<open>normalizeBoard(null)\<close> raises a
  TypeError.
\<close>

datatype 'a outcome = Threw jserror | Returned exec_result | Loaded 'a

definition loadSource ::
  "engine \<Rightarrow> (jsstring \<Rightarrow> jserror + request_result) \<Rightarrow> jsstring option \<Rightarrow> jsstring \<Rightarrow>
   normalized outcome" where
  "loadSource E mondayRequest boardId notConfigured =
     (case boardId of
        None \<Rightarrow> Returned (errorResult notConfigured)
      | Some i \<Rightarrow>
          if i = [] then Returned (errorResult notConfigured)
          else
            (case fetchBoard mondayRequest i of
               Inl e \<Rightarrow> Threw e
             | Inr fr \<Rightarrow>
                 (case (case fr_error fr of None \<Rightarrow> None | Some e \<Rightarrow> if e = [] then None else Some e) of
                    Some e \<Rightarrow> Returned (errorResult e)
                  | None \<Rightarrow>
                      (case fr_board fr of
                         None \<Rightarrow> Threw TypeError
                       | Some b \<Rightarrow>
                           (case normalizeBoard E b of
                              Inl e \<Rightarrow> Threw e
                            | Inr n \<Rightarrow> Loaded n)))))"

definition needDeals :: "plan \<Rightarrow> bool" where
  "needDeals p \<longleftrightarrow> js ''deals'' \<in> set (data_sources p) \<or> js ''all'' \<in> set (data_sources p)"

definition needWO :: "plan \<Rightarrow> bool" where
  "needWO p \<longleftrightarrow> js ''work_orders'' \<in> set (data_sources p) \<or> js ''all'' \<in> set (data_sources p)"

definition dealsNotConfigured :: jsstring where
  "dealsNotConfigured = js ''DEALS_BOARD_ID not configured in .env''"

definition woNotConfigured :: jsstring where
  "woNotConfigured = js ''WORK_ORDERS_BOARD_ID not configured in .env''"

text \<open>The sector filter: the rows with a string cell that contains the sector.\<close>

definition sectorRows :: "engine \<Rightarrow> jsstring \<Rightarrow> row list \<Rightarrow> row list" where
  "sectorRows E sector rs =
     filter
       (\<lambda>r. list_ex
               (\<lambda>k. case getProp r k of
                       VStr s \<Rightarrow> jsIncludes (toLowerCase E s) (toLowerCase E sector)
                     | _ \<Rightarrow> False)
               (objectKeys r))
       rs"

text \<open>The part of \<^verbatim>\<open>executePlan\<close> after the two sources are loaded.\<close>

definition finishPlan ::
  "engine \<Rightarrow> int \<Rightarrow> plan \<Rightarrow> normalized option \<Rightarrow> normalized option \<Rightarrow> jserror + exec_result" where
  "finishPlan E now p dealsNorm woNorm =
     (case (case (dealsNorm, woNorm) of
              (Some d, Some w) \<Rightarrow> map_sum id Some (crossBoardAnalysis E (rows d) (rows w))
            | _ \<Rightarrow> Inr None) of
        Inl e \<Rightarrow> Inl e
      | Inr cross \<Rightarrow>
          (let filtered =
                 (case (filter_sector p, dealsNorm) of
                    (Some sec, Some d) \<Rightarrow> if sec = [] then None else Some (sectorRows E sec (rows d))
                  | _ \<Rightarrow> None)
           in Inr \<lparr>x_error = None,
                  m_deals = map_option (\<lambda>d. computeDealsMetrics E (rows d)) dealsNorm,
                  m_workOrders = map_option (\<lambda>w. computeWorkOrdersMetrics E now (rows w)) woNorm,
                  m_crossBoard = cross,
                  m_filteredDeals = map_option (computeDealsMetrics E) filtered,
                  dq_deals = map_option dataQuality dealsNorm,
                  dq_workOrders = map_option dataQuality woNorm,
                  t_deals = map_option (\<lambda>d. take 20 (rows d)) dealsNorm,
                  t_workOrders = map_option (\<lambda>w. take 20 (rows w)) woNorm,
                  t_filteredDeals = map_option (take 20) filtered,
                  confidence =
                    Some (computeConfidence (map_option dataQuality dealsNorm)
                            (map_option dataQuality woNorm))\<rparr>))"

definition loadDeals ::
  "engine \<Rightarrow> env \<Rightarrow> (jsstring \<Rightarrow> jserror + request_result) \<Rightarrow> normalized outcome" where
  "loadDeals E ev mondayRequest = loadSource E mondayRequest (DEALS_BOARD_ID ev) dealsNotConfigured"

definition loadWO ::
  "engine \<Rightarrow> env \<Rightarrow> (jsstring \<Rightarrow> jserror + request_result) \<Rightarrow> normalized outcome" where
  "loadWO E ev mondayRequest = loadSource E mondayRequest (WORK_ORDERS_BOARD_ID ev) woNotConfigured"

text \<open>
  \<^verbatim>\<open>executePlan(plan)\<close>; \<open>now\<close> is the time of the call, \<open>ev\<close> the environment and
  \<open>mondayRequest\<close> the transport. \<open>Inl e\<close> is a rejected promise.
\<close>

definition executePlan ::
  "engine \<Rightarrow> int \<Rightarrow> env \<Rightarrow> (jsstring \<Rightarrow> jserror + request_result) \<Rightarrow> plan \<Rightarrow>
   jserror + exec_result" where
  "executePlan E now ev mondayRequest p =
     (if needDeals p then
        (case loadDeals E ev mondayRequest of
           Threw e \<Rightarrow> Inl e
         | Returned r \<Rightarrow> Inr r
         | Loaded d \<Rightarrow>
             if needWO p then
               (case loadWO E ev mondayRequest of
                  Threw e \<Rightarrow> Inl e
                | Returned r \<Rightarrow> Inr r
                | Loaded w \<Rightarrow> finishPlan E now p (Some d) (Some w))
             else finishPlan E now p (Some d) None)
      else if needWO p then
        (case loadWO E ev mondayRequest of
           Threw e \<Rightarrow> Inl e
         | Returned r \<Rightarrow> Inr r
         | Loaded w \<Rightarrow> finishPlan E now p None (Some w))
      else finishPlan E now p None None)"

text \<open>
  A source fails when its board identifier is absent (or empty), or when the fetch
  returns a non-null error; \<open>failureMessage\<close> is the message of that failure.
\<close>

definition sourceFails ::
  "(jsstring \<Rightarrow> jserror + request_result) \<Rightarrow> jsstring option \<Rightarrow> bool" where
  "sourceFails mondayRequest boardId =
     (case boardId of
        None \<Rightarrow> True
      | Some i \<Rightarrow>
          i = [] \<or> (case fetchBoard mondayRequest i of Inl e \<Rightarrow> False | Inr fr \<Rightarrow> fr_error fr \<noteq> None))"

definition failureMessage ::
  "(jsstring \<Rightarrow> jserror + request_result) \<Rightarrow> jsstring option \<Rightarrow> jsstring \<Rightarrow> jsstring" where
  "failureMessage mondayRequest boardId notConfigured =
     (case boardId of
        None \<Rightarrow> notConfigured
      | Some i \<Rightarrow>
          if i = [] then notConfigured
          else
            (case fetchBoard mondayRequest i of
               Inr fr \<Rightarrow> (case fr_error fr of Some e \<Rightarrow> e | None \<Rightarrow> notConfigured)
             | Inl e \<Rightarrow> notConfigured))"

text \<open>Transports and settings for the examples.\<close>

definition noToken :: "jsstring \<Rightarrow> jserror + request_result" where
  "noToken boardId =
     Inl (Error (js ''MONDAY_API_TOKEN is not configured. Set it in your .env file.''))"

definition mockTransport :: "jsstring \<Rightarrow> jserror + request_result" where
  "mockTransport boardId =
     (if boardId = js ''1'' then Inr \<lparr>rq_error = None, rq_boards = Some [mockBoard]\<rparr>
      else Inr \<lparr>rq_error = Some (js ''Monday.com API returned HTTP 500''), rq_boards = None\<rparr>)"

definition dealsOnlyEnv :: env where
  "dealsOnlyEnv = \<lparr>DEALS_BOARD_ID = Some (js ''1''), WORK_ORDERS_BOARD_ID = None\<rparr>"

definition bothEnv :: env where
  "bothEnv = \<lparr>DEALS_BOARD_ID = Some (js ''1''), WORK_ORDERS_BOARD_ID = Some (js ''2'')\<rparr>"

definition allPlan :: plan where
  "allPlan = \<lparr>data_sources = [js ''all''], filter_sector = None\<rparr>"

text \<open>A transport that returns the board with the column \<^verbatim>\<open>constructor\<close>, and a plan for the deals.\<close>

definition constructorTransport :: "jsstring \<Rightarrow> jserror + request_result" where
  "constructorTransport boardId = Inr \<lparr>rq_error = None, rq_boards = Some [constructorBoard]\<rparr>"

definition dealsPlan :: plan where
  "dealsPlan = \<lparr>data_sources = [js ''deals''], filter_sector = None\<rparr>"

section \<open>Blank and unparseable cells\<close>







text \<open>Every value of the report is a count.\<close>

definition allCounts :: "(jsstring \<times> count_value) list \<Rightarrow> bool" where
  "allCounts m = list_all (\<lambda>kv. case snd kv of Count n \<Rightarrow> True | Text k n \<Rightarrow> False) m"


text \<open>The sum of the counts of a report.\<close>

definition sumCounts :: "(jsstring \<times> count_value) list \<Rightarrow> nat" where
  "sumCounts m = sum_list (map (\<lambda>kv. case snd kv of Count n \<Rightarrow> n | Text k n \<Rightarrow> 0) m)"


section \<open>Properties of the string functions\<close>

lemma dropWhile_idem: "dropWhile P (dropWhile P xs) = dropWhile P xs"
  by (induction xs) auto

lemma jsTrim_hd: "jsTrim s \<noteq> [] \<Longrightarrow> \<not> isWhiteSpace (hd (jsTrim s))"
proof -
  assume ne: "jsTrim s \<noteq> []"
  let ?d = "dropWhile isWhiteSpace s"
  let ?e = "dropWhile isWhiteSpace (rev ?d)"
  have e: "?e \<noteq> []" using ne by (simp add: jsTrim_def)
  then have d: "?d \<noteq> []" by (metis dropWhile.simps(1) rev.simps(1))
  have "rev ?d = takeWhile isWhiteSpace (rev ?d) @ ?e" by simp
  then have "?d = rev ?e @ rev (takeWhile isWhiteSpace (rev ?d))"
    by (metis rev_append rev_rev_ident)
  then have "hd ?d = hd (rev ?e)" using e by (metis hd_append2 rev_is_Nil_conv)
  moreover have "\<not> isWhiteSpace (hd ?d)" using d by (rule hd_dropWhile)
  ultimately show ?thesis by (simp add: jsTrim_def)
qed

lemma jsTrim_idem: "jsTrim (jsTrim s) = jsTrim s"
proof (cases "jsTrim s = []")
  case True
  have "jsTrim [] = []" by (simp add: jsTrim_def)
  with True show ?thesis by simp
next
  case False
  let ?e = "dropWhile isWhiteSpace (rev (dropWhile isWhiteSpace s))"
  have t: "jsTrim s = rev ?e" by (simp add: jsTrim_def)
  have "\<not> isWhiteSpace (hd (jsTrim s))" using False by (rule jsTrim_hd)
  then have 1: "dropWhile isWhiteSpace (jsTrim s) = jsTrim s"
    using False by (cases "jsTrim s") auto
  have 2: "dropWhile isWhiteSpace ?e = ?e" by (rule dropWhile_idem)
  have "jsTrim (jsTrim s) = rev (dropWhile isWhiteSpace (rev (dropWhile isWhiteSpace (jsTrim s))))"
    by (simp only: jsTrim_def)
  also have "\<dots> = rev (dropWhile isWhiteSpace (rev (jsTrim s)))" by (simp only: 1)
  also have "\<dots> = rev (dropWhile isWhiteSpace ?e)" by (simp only: t rev_rev_ident)
  also have "\<dots> = jsTrim s" by (simp only: 2 t)
  finally show ?thesis .
qed

section \<open>Sector canonicalization: idempotence\<close>

lemma SECTOR_MAP_range: "list_all (\<lambda>(k, v). v \<in> set canonicalNames) SECTOR_MAP"
  by code_simp

lemma canonicalNames_fixed:
  "list_all (\<lambda>v. canonicalizeSector E (SecStr v) = SecStr v) canonicalNames"
  by code_simp

lemma canonical_names_fixed:
  assumes "(k, v) \<in> set SECTOR_MAP"
  shows "canonicalizeSector E (SecStr v) = SecStr v"
proof -
  have "v \<in> set canonicalNames"
    using assms SECTOR_MAP_range by (auto simp: list_all_iff)
  then show ?thesis using canonicalNames_fixed [of E] by (auto simp: list_all_iff)
qed

lemma canonicalizeSector_idem:
  assumes "toLowerCase E (jsTrim s) \<notin> set protoKeys"
  shows "canonicalizeSector E (canonicalizeSector E (SecStr s)) = canonicalizeSector E (SecStr s)"
proof (cases "s = [] \<or> jsTrim s = []")
  case True
  then show ?thesis by (auto simp: canonicalizeSector_def)
next
  case False
  show ?thesis
  proof (cases "map_of SECTOR_MAP (toLowerCase E (jsTrim s))")
    case (Some v)
    then have "(toLowerCase E (jsTrim s), v) \<in> set SECTOR_MAP" by (rule map_of_SomeD)
    then have "canonicalizeSector E (SecStr v) = SecStr v" by (rule canonical_names_fixed)
    moreover have "canonicalizeSector E (SecStr s) = SecStr v"
      using False Some by (simp add: canonicalizeSector_def)
    ultimately show ?thesis by simp
  next
    case None
    have 1: "canonicalizeSector E (SecStr s) = SecStr (jsTrim s)"
      using False None assms by (simp add: canonicalizeSector_def)
    have "canonicalizeSector E (SecStr (jsTrim s)) = SecStr (jsTrim s)"
      using False None assms by (simp add: canonicalizeSector_def jsTrim_idem)
    with 1 show ?thesis by simp
  qed
qed

text \<open>
  C9. \<^verbatim>\<open>canonicalizeSector\<close> is not idempotent on every string. For the input
  \<^verbatim>\<open>"constructor"\<close>, an unmatched sector name, the lookup \<^verbatim>\<open>SECTOR_MAP[key]\<close> finds the
  inherited \<^verbatim>\<open>Object.prototype.constructor\<close> and returns that function, not the trimmed
  string; applied again it returns the function's source text, a string. (By
  \<open>canonicalizeSector_idem\<close> the function is idempotent on every string whose trimmed
  lower-case form is not a property name of \<^verbatim>\<open>Object.prototype\<close>.)
\<close>

theorem canonicalizeSector_constructor:
  "canonicalizeSector refEngine (SecStr (js ''constructor'')) = SecInherited (js ''constructor'') \<and>
   canonicalizeSector refEngine (canonicalizeSector refEngine (SecStr (js ''constructor''))) =
     SecStr (js ''function Object() { [native code] }'')"
  by code_simp

section \<open>Column resolution reads the first row only\<close>

text \<open>
  C10. \<^verbatim>\<open>findCol\<close> consults only the keys of the first row: on a non-empty row list it
  returns what it returns on the list holding the first row alone, and on the empty
  list it returns \<^verbatim>\<open>null\<close>.
\<close>

theorem findCol_first_row:
  "findCol E [] candidates = None \<and>
   (rs \<noteq> [] \<longrightarrow> findCol E rs candidates = findCol E [hd rs] candidates)"
  by (cases rs) (simp_all add: findCol_def)

theorem findCol_first_row_witness:
  "findCol refEngine [] [js ''stage''] = None \<and>
   findCol refEngine [[(js ''_id'', VStr (js ''1''))], [(js ''Stage'', VStr (js ''Won''))]]
       [js ''stage''] =
     findCol refEngine [[(js ''_id'', VStr (js ''1''))]] [js ''stage''] \<and>
   findCol refEngine [[(js ''_id'', VStr (js ''1''))]] [js ''stage''] = None \<and>
   findCol refEngine [[(js ''Stage'', VStr (js ''Won''))]] [js ''stage''] = Some (js ''Stage'')"
proof -
  have "findCol refEngine [[(js ''_id'', VStr (js ''1''))], [(js ''Stage'', VStr (js ''Won''))]]
       [js ''stage''] =
     findCol refEngine [hd [[(js ''_id'', VStr (js ''1''))], [(js ''Stage'', VStr (js ''Won''))]]]
       [js ''stage'']"
    using findCol_first_row [of refEngine "[js ''stage'']"
        "[[(js ''_id'', VStr (js ''1''))], [(js ''Stage'', VStr (js ''Won''))]]"]
    by blast
  moreover have "findCol refEngine [[(js ''_id'', VStr (js ''1''))]] [js ''stage''] = None"
    by code_simp
  moreover have "findCol refEngine [[(js ''Stage'', VStr (js ''Won''))]] [js ''stage''] =
      Some (js ''Stage'')"
    by code_simp
  ultimately show ?thesis
    using findCol_first_row [of refEngine "[js ''stage'']" "[]"] by simp
qed

section \<open>Currency normalization: the result by cases\<close>











section \<open>Board normalization: row keys, null values and missing counts\<close>














lemma total_sum: "allCounts m \<Longrightarrow> foldl addCount (Some a) (map snd m) = Some (a + sumCounts m)"
proof (induction m arbitrary: a)
  case Nil
  then show ?case by (simp add: sumCounts_def)
next
  case (Cons kv m)
  obtain k v where kv: "kv = (k, v)" by (cases kv)
  obtain n where v: "v = Count n" using Cons.prems kv by (cases v) (auto simp: allCounts_def)
  have "allCounts m" using Cons.prems by (simp add: allCounts_def)
  then have "foldl addCount (Some (a + n)) (map snd m) = Some (a + n + sumCounts m)"
    by (rule Cons.IH)
  then show ?case by (simp add: kv v sumCounts_def)
qed















section \<open>Confidence score: the formula on counts, and a count that is a string\<close>

lemma Text_not_allCounts:
  "\<not> allCounts m \<Longrightarrow> foldl addCount a (map snd m) = None"
proof (induction m arbitrary: a)
  case Nil
  then show ?case by (simp add: allCounts_def)
next
  case (Cons kv m)
  have n: "foldl addCount None xs = None" for xs by (induction xs) simp_all
  show ?case
  proof (cases "snd kv")
    case (Count k)
    then have "\<not> allCounts m" using Cons.prems by (simp add: allCounts_def)
    then show ?thesis using Cons.IH by simp
  next
    case (Text k j)
    then show ?thesis using n by (cases a) simp_all
  qed
qed

lemma lit_values:
  "roundDouble lit085 = lit085" "roundTo2Decimals lit085 = lit085"
  "lit01 \<le> lit085" "lit085 \<le> 1" "lit01 \<le> 1"
  by (code_simp+)

lemma roundDouble_0: "roundDouble 0 = 0"
  by (simp add: roundDouble_def)

lemma length_objectKeys: "length (objectKeys r) = length r"
  unfolding objectKeys_def
  by (simp only: length_append length_sort sum_length_filter_compl length_map)

lemma totalMissing_counts: "allCounts (missingCounts dq) \<Longrightarrow> totalMissing dq = Some (sumCounts (missingCounts dq))"
  using total_sum [of "missingCounts dq" 0] by (simp add: totalMissing_def)

lemma totalMissing_text: "\<not> allCounts (missingCounts dq) \<Longrightarrow> totalMissing dq = None"
  by (simp add: totalMissing_def Text_not_allCounts)

text \<open>One round of the loop on a report whose values are counts, in double arithmetic.\<close>

lemma confidenceStep_counts:
  assumes "allCounts (missingCounts dq)"
  shows "confidenceStep (Fin s) dq =
     Fin (let missingRatio =
                roundDouble (of_nat (sumCounts (missingCounts dq)) /
                             of_nat (max 1 (totalRows dq * length (missingCounts dq))));
              score1 = roundDouble (s - roundDouble (missingRatio * lit03))
          in if 3 < length (warnings dq) then roundDouble (score1 - lit005) else score1)"
proof -
  have mx: "(if p = 0 then 1 else p) = max 1 p" for p :: nat by (simp add: max_def)
  show ?thesis
    by (simp add: confidenceStep_def Let_def totalMissing_counts [OF assms] length_objectKeys mx
        fdiv_def fmul_def fsub_def)
qed

lemma confidenceStep_NaN: "confidenceStep NaN dq = NaN"
  by (cases "totalMissing dq") (simp_all add: confidenceStep_def Let_def)

lemma foldl_confidenceStep_NaN: "foldl confidenceStep NaN qs = NaN"
  by (induction qs) (simp_all add: confidenceStep_NaN)

lemma foldl_confidenceStep_counts:
  assumes "\<forall>dq \<in> set qs. allCounts (missingCounts dq)"
  shows "foldl confidenceStep (Fin s) qs =
     Fin (foldl
       (\<lambda>score dq.
          let missingRatio =
                roundDouble (of_nat (sumCounts (missingCounts dq)) /
                             of_nat (max 1 (totalRows dq * length (missingCounts dq))));
              score1 = roundDouble (score - roundDouble (missingRatio * lit03))
          in if 3 < length (warnings dq) then roundDouble (score1 - lit005) else score1)
       s qs)"
  using assms by (induction qs arbitrary: s) (simp_all add: confidenceStep_counts)

text \<open>
  On reports whose values are all counts, \<^verbatim>\<open>computeConfidence\<close> starts at 0.85,
  subtracts \<open>missingRatio * 0.3\<close> and a flat 0.05 for more than 3 warnings for each
  report, and the result, rounded to 2 decimals, is clamped to the range from 0.10 to
  1.00; it is exactly 0.85 when no report has a missing value or more than 3 warnings.
\<close>

lemma computeConfidence_counts:
  assumes "\<forall>dq \<in> set (qualitiesOf dqDeals dqWorkOrders). allCounts (missingCounts dq)"
  shows "\<exists>s. computeConfidence dqDeals dqWorkOrders = Fin s \<and> lit01 \<le> s \<and> s \<le> 1 \<and>
     s = max lit01 (min 1 (roundTo2Decimals
       (foldl
          (\<lambda>score dq.
             let missingRatio =
                   roundDouble (of_nat (sumCounts (missingCounts dq)) /
                                of_nat (max 1 (totalRows dq * length (missingCounts dq))));
                 score1 = roundDouble (score - roundDouble (missingRatio * lit03))
             in if 3 < length (warnings dq) then roundDouble (score1 - lit005) else score1)
          lit085 (qualitiesOf dqDeals dqWorkOrders))))"
  using lit_values(5)
  by (simp add: computeConfidence_def scoreOf_def foldl_confidenceStep_counts [OF assms])

lemma computeConfidence_clean:
  assumes "\<forall>dq \<in> set (qualitiesOf dqDeals dqWorkOrders).
     allCounts (missingCounts dq) \<and> sumCounts (missingCounts dq) = 0 \<and> length (warnings dq) \<le> 3"
  shows "computeConfidence dqDeals dqWorkOrders = Fin lit085"
proof -
  have "foldl confidenceStep (Fin lit085) qs = Fin lit085"
    if "\<forall>dq \<in> set qs. allCounts (missingCounts dq) \<and> sumCounts (missingCounts dq) = 0 \<and>
          length (warnings dq) \<le> 3" for qs
    using that
    by (induction qs) (simp_all add: confidenceStep_counts Let_def roundDouble_0 lit_values(1))
  then show ?thesis using assms lit_values
    by (simp add: computeConfidence_def scoreOf_def)
qed

text \<open>A report with a value that is not a count makes the score \<^verbatim>\<open>NaN\<close>.\<close>

lemma computeConfidence_not_a_number:
  assumes "\<exists>dq \<in> set (qualitiesOf dqDeals dqWorkOrders). \<not> allCounts (missingCounts dq)"
  shows "computeConfidence dqDeals dqWorkOrders = NaN"
proof -
  have "foldl confidenceStep x qs = NaN" if "\<exists>dq \<in> set qs. \<not> allCounts (missingCounts dq)" for qs x
    using that
  proof (induction qs arbitrary: x)
    case Nil
    then show ?case by simp
  next
    case (Cons dq qs)
    show ?case
    proof (cases "allCounts (missingCounts dq)")
      case True
      then show ?thesis using Cons by simp
    next
      case False
      then have "confidenceStep x dq = NaN"
        by (simp add: confidenceStep_def Let_def totalMissing_text)
      then show ?thesis by (simp add: foldl_confidenceStep_NaN)
    qed
  qed
  then show ?thesis using assms by (simp add: computeConfidence_def scoreOf_def)
qed

text \<open>The scores of the example reports: 0.85, 0.70, 0.80 and 0.55 as doubles.\<close>

lemma computeConfidence_values:
  "computeConfidence None None = Fin (roundDouble (85 / 100))"
  "computeConfidence (Some cleanReport) (Some cleanReport) = Fin (roundDouble (85 / 100))"
  "computeConfidence (Some gappyReport) None = Fin (roundDouble (7 / 10))"
  "computeConfidence (Some noisyReport) None = Fin (roundDouble (8 / 10))"
  "computeConfidence (Some emptyColumnReport) None = Fin (roundDouble (55 / 100))"
  by code_simp+

lemma ctor_cell:
  "cellStep E cols st (textCell ''text1'' [] ''text'' ''constructor'') =
     Inr (assignRow (st\<lparr>st_missing := bumpMissing (st_missing st) (js ''constructor'')\<rparr>)
            (js ''constructor'') VNull)"
  by (simp add: cellStep_def cellText_def cellTitle_def textCell_def Let_def js_def)

lemma ctor_bump:
  "bumpMissing [] (js ''constructor'') = [(js ''constructor'', Text (js ''constructor'') (Suc 0))]"
  by code_simp

lemma ctor_assign:
  "assignRow
     \<lparr>st_row = [(js ''_id'', VStr i), (js ''_name'', VStr n)],
        st_inherits = True, st_rows = rs, st_missing = m, st_currencies = cs, st_warnings = ws\<rparr>
     (js ''constructor'') VNull =
     \<lparr>st_row = [(js ''_id'', VStr i), (js ''_name'', VStr n), (js ''constructor'', VNull)],
        st_inherits = True, st_rows = rs, st_missing = m, st_currencies = cs, st_warnings = ws\<rparr>"
proof -
  have "js ''constructor'' \<noteq> js ''__proto__''" "js ''_id'' \<noteq> js ''constructor''"
    "js ''_name'' \<noteq> js ''constructor''" by code_simp+
  then show ?thesis by (simp add: assignRow_def)
qed


text \<open>
  C6. The score is not always in the range from 0.10 to 1.00. On a board with a column
  titled \<^verbatim>\<open>constructor\<close> whose cell is blank in one item, \<^verbatim>\<open>normalizeBoard\<close> reads
  \<^verbatim>\<open>missingCounts["constructor"]\<close>, finds the function inherited from
  \<^verbatim>\<open>Object.prototype\<close>, and stores a string in place of a count. \<^verbatim>\<open>computeConfidence\<close>
  adds the values to a string, the division makes it \<^verbatim>\<open>NaN\<close>, and \<^verbatim>\<open>Math.min\<close> and
  \<^verbatim>\<open>Math.max\<close> pass \<^verbatim>\<open>NaN\<close> on: the confidence of a plan that loads this board is
  \<^verbatim>\<open>NaN\<close>. (On reports whose values are all counts the claim holds:
  \<open>computeConfidence_counts\<close>, \<open>computeConfidence_clean\<close>.)
\<close>

theorem computeConfidence_inherited_count:
  "normalizeBoard E constructorBoard =
     Inr \<lparr>boardName = js ''Suppliers'',
          rows = [namedRow ''1'' (js ''Deal Alpha'') @ [(js ''constructor'', VNull)]],
          dataQuality = constructorReport\<rparr> \<and>
   computeConfidence (Some constructorReport) None = NaN \<and>
   map_sum id dq_deals
     (executePlan refEngine newYear2024 dealsOnlyEnv constructorTransport dealsPlan) =
     Inr (Some constructorReport) \<and>
   map_sum id confidence
     (executePlan refEngine newYear2024 dealsOnlyEnv constructorTransport dealsPlan) =
     Inr (Some NaN)"
proof -
  have 1: "normalizeBoard E constructorBoard =
     Inr \<lparr>boardName = js ''Suppliers'',
          rows = [namedRow ''1'' (js ''Deal Alpha'') @ [(js ''constructor'', VNull)]],
          dataQuality = constructorReport\<rparr>"
    by (simp add: normalizeBoard_def constructorBoard_def itemStep_def ctor_cell ctor_bump
        constructorReport_def ctor_assign namedRow_def)
  have 2: "computeConfidence (Some constructorReport) None = NaN"
    by (simp add: computeConfidence_def scoreOf_def qualitiesOf_def confidenceStep_def
        totalMissing_def constructorReport_def)
  have 3: "map_sum id dq_deals
     (executePlan refEngine newYear2024 dealsOnlyEnv constructorTransport dealsPlan) =
     Inr (Some constructorReport)"
    by code_simp
  have 4: "map_sum id confidence
     (executePlan refEngine newYear2024 dealsOnlyEnv constructorTransport dealsPlan) =
     Inr (Some NaN)"
    by code_simp
  show ?thesis using 1 2 3 4 by (intro conjI)
qed


section \<open>Rounding to a double stays in the unit interval\<close>

lemma log2floor_nonneg: "0 \<le> log2floor n"
  by (induction n rule: log2floor.induct) (subst log2floor.simps, simp)

lemma log2floor_mono: "p \<le> q \<Longrightarrow> log2floor p \<le> log2floor q"
proof (induction q arbitrary: p rule: log2floor.induct)
  case (1 q)
  show ?case
  proof (cases "p < 2")
    case True
    then have "log2floor p = 0" by (subst log2floor.simps) simp
    then show ?thesis by (simp add: log2floor_nonneg)
  next
    case False
    then have q: "\<not> q < 2" using "1.prems" by simp
    have "p div 2 \<le> q div 2" using "1.prems" by (simp add: zdiv_mono1)
    then have "log2floor (p div 2) \<le> log2floor (q div 2)" using "1.IH" q by simp
    moreover have "log2floor p = 1 + log2floor (p div 2)"
      using False by (subst log2floor.simps) simp
    moreover have "log2floor q = 1 + log2floor (q div 2)"
      using q by (subst log2floor.simps) simp
    ultimately show ?thesis by simp
  qed
qed

lemma pow2_pos: "0 < pow2 e"
  by (simp add: pow2_def)

lemma ilog2_le_1: "0 < a \<Longrightarrow> a \<le> 1 \<Longrightarrow> ilog2 a \<le> 0"
proof -
  assume a: "0 < a" "a \<le> 1"
  obtain p q where pq: "quotient_of a = (p, q)" by (cases "quotient_of a")
  have q: "0 < q" using pq by (rule quotient_of_denom_pos)
  have frac: "a = of_int p / of_int q" using pq by (rule quotient_of_div)
  have "p \<le> q"
  proof -
    have "of_int p / of_int q \<le> (1::rat)" using a frac by simp
    then have "(of_int p :: rat) \<le> of_int q" using q by (simp add: pos_divide_le_eq)
    then show ?thesis by simp
  qed
  then have d: "log2floor p - log2floor q \<le> 0" using log2floor_mono by fastforce
  show ?thesis
  proof (cases "pow2 (log2floor p - log2floor q) \<le> a")
    case True
    then show ?thesis using d pq by (simp add: ilog2_def)
  next
    case False
    then show ?thesis using d pq by (simp add: ilog2_def)
  qed
qed

lemma roundHalfEven_le: "q \<le> of_int K \<Longrightarrow> roundHalfEven q \<le> K"
proof -
  assume le: "q \<le> of_int K"
  have f: "\<lfloor>q\<rfloor> \<le> K" using floor_mono [OF le] by simp
  show ?thesis
  proof (cases "\<lfloor>q\<rfloor> = K")
    case True
    then have "q - of_int \<lfloor>q\<rfloor> \<le> 0" using le by simp
    then show ?thesis using True by (simp add: roundHalfEven_def Let_def)
  next
    case False
    then have "\<lfloor>q\<rfloor> + 1 \<le> K" using f by simp
    then show ?thesis by (auto simp: roundHalfEven_def Let_def)
  qed
qed

lemma roundHalfEven_nonneg: "0 \<le> q \<Longrightarrow> 0 \<le> roundHalfEven q"
  by (auto simp: roundHalfEven_def Let_def)

lemma roundDouble_unit:
  assumes "0 \<le> x" "x \<le> 1"
  shows "0 \<le> roundDouble x \<and> roundDouble x \<le> 1"
proof (cases "x = 0")
  case True
  then show ?thesis by (simp add: roundDouble_def)
next
  case False
  then have pos: "0 < x" using assms(1) by simp
  define e where "e = max (ilog2 \<bar>x\<bar>) (- 1022)"
  define k where "k = nat (52 - e)"
  have e: "e \<le> 0" using ilog2_le_1 [of x] pos assms(2) by (simp add: e_def)
  then have u: "pow2 (e - 52) = 1 / 2 ^ k" by (simp add: pow2_def k_def nat_diff_distrib)
  have "roundDouble x = sgn x * of_int (roundHalfEven (\<bar>x\<bar> / pow2 (e - 52))) * pow2 (e - 52)"
    using False by (simp add: roundDouble_def Let_def e_def)
  also have "\<dots> = of_int (roundHalfEven (x / (1 / 2 ^ k))) * (1 / 2 ^ k)"
    using pos by (simp only: u) simp
  finally have rd: "roundDouble x = of_int (roundHalfEven (x * 2 ^ k)) / 2 ^ k" by simp
  have "x * 2 ^ k \<le> of_int (2 ^ k)" using assms(2) by (simp add: mult_le_cancel_right1)
  then have "roundHalfEven (x * 2 ^ k) \<le> 2 ^ k" by (rule roundHalfEven_le)
  then have up: "(of_int (roundHalfEven (x * 2 ^ k)) :: rat) \<le> 2 ^ k"
    by (metis of_int_le_iff of_int_numeral of_int_power)
  have "0 \<le> roundHalfEven (x * 2 ^ k)" using pos by (intro roundHalfEven_nonneg) simp
  then have lo: "(0::rat) \<le> of_int (roundHalfEven (x * 2 ^ k))" by simp
  show ?thesis using up lo by (simp add: rd divide_le_eq_1)
qed


section \<open>Deals metrics: the closed-won count and the close rate\<close>

lemma litStep_iff: "litStep l (p, s) \<noteq> [] \<longleftrightarrow> startsWith (map lowerAscii s) (map lowerAscii l)"
proof (induction l arbitrary: p s)
  case Nil
  then show ?case by simp
next
  case (Cons a l)
  then show ?case by (cases s) simp_all
qed

lemma litStep_rest: "st' \<in> set (litStep l (p, s)) \<Longrightarrow> \<exists>n. snd st' = drop n s"
proof (induction l arbitrary: p s)
  case Nil
  then show ?case by (auto intro: exI [of _ 0])
next
  case (Cons a l)
  show ?case
  proof (cases s)
    case Nil
    then show ?thesis using Cons.prems by simp
  next
    case (Cons c r)
    then have "st' \<in> set (litStep l (Some c, r))" using Cons.prems by (simp split: if_splits)
    then obtain n where "snd st' = drop n r" using Cons.IH by blast
    then have "snd st' = drop (Suc n) s" using Cons by simp
    then show ?thesis by blast
  qed
qed

lemma dotStarStep_rest: "st' \<in> set (dotStarStep (p, s)) \<Longrightarrow> \<exists>n. snd st' = drop n s"
proof (induction s arbitrary: p)
  case Nil
  then show ?case by simp
next
  case (Cons c r)
  show ?case
  proof (cases "st' = (p, c # r)")
    case True
    then show ?thesis by (auto intro: exI [of _ 0])
  next
    case False
    then have "st' \<in> set (dotStarStep (Some c, r))" using Cons.prems by (simp split: if_splits)
    then obtain n where "snd st' = drop n r" using Cons.IH by blast
    then have "snd st' = drop (Suc n) (c # r)" by simp
    then show ?thesis by blast
  qed
qed

lemma jsIncludes_drop: "startsWith (drop n s) t \<Longrightarrow> jsIncludes s t"
proof (induction s arbitrary: n)
  case Nil
  then show ?case by (cases t) simp_all
next
  case (Cons x s)
  then show ?case by (cases n) auto
qed

lemma positions_Lit:
  "list_ex (\<lambda>st. litStep l st \<noteq> []) (positions (p, s)) \<longleftrightarrow>
   jsIncludes (map lowerAscii s) (map lowerAscii l)"
proof (induction s arbitrary: p)
  case Nil
  show ?case by (cases l) simp_all
next
  case (Cons c r)
  show ?case using Cons.IH [of "Some c"] litStep_iff [of l p "c # r"] by simp
qed

lemma rxTest_Lit: "rxTest (Lit l) s \<longleftrightarrow> jsIncludes (map lowerAscii s) (map lowerAscii l)"
  using positions_Lit [of l None s] by (simp add: rxTest_def)

lemma rxTest_Or: "rxTest (Or a b) s \<longleftrightarrow> rxTest a s \<or> rxTest b s"
  by (auto simp: rxTest_def list_ex_iff)

lemma positions_rest: "st \<in> set (positions (p, s)) \<Longrightarrow> \<exists>n. snd st = drop n s"
proof (induction s arbitrary: p)
  case Nil
  then show ?case by simp
next
  case (Cons c r)
  show ?case
  proof (cases "st = (p, c # r)")
    case True
    then show ?thesis by (auto intro: exI [of _ 0])
  next
    case False
    then have "st \<in> set (positions (Some c, r))" using Cons.prems by simp
    then obtain n where "snd st = drop n r" using Cons.IH by blast
    then have "snd st = drop (Suc n) (c # r)" by simp
    then show ?thesis by blast
  qed
qed

lemma rxTest_gap:
  assumes "rxTest (Cat (Lit a) (Cat DotStar (Lit b))) s"
  shows "jsIncludes (map lowerAscii s) (map lowerAscii b)"
proof -
  obtain st where st: "st \<in> set (positions (None, s))"
    and ne: "rxStep (Cat (Lit a) (Cat DotStar (Lit b))) st \<noteq> []"
    using assms by (auto simp: rxTest_def list_ex_iff)
  obtain s1 s2 where s1: "s1 \<in> set (litStep a st)" and s2: "s2 \<in> set (dotStarStep s1)"
    and m: "litStep b s2 \<noteq> []"
    using ne by auto
  obtain n0 where n0: "snd st = drop n0 s" using positions_rest [OF st] by blast
  obtain n1 where n1: "snd s1 = drop n1 (snd st)"
    using litStep_rest [of s1 a "fst st" "snd st"] s1 by auto
  obtain n2 where n2: "snd s2 = drop n2 (snd s1)"
    using dotStarStep_rest [of s2 "fst s1" "snd s1"] s2 by auto
  have "startsWith (map lowerAscii (snd s2)) (map lowerAscii b)"
    using m litStep_iff [of b "fst s2" "snd s2"] by simp
  moreover have "snd s2 = drop (n2 + n1 + n0) s" using n0 n1 n2 by (simp add: add.commute add.left_commute)
  ultimately have "startsWith (drop (n2 + n1 + n0) (map lowerAscii s)) (map lowerAscii b)"
    by (simp add: drop_map)
  then show ?thesis by (rule jsIncludes_drop)
qed

lemma lower_words:
  "map lowerAscii (js ''won'') = js ''won''"
  "map lowerAscii (js ''completed'') = js ''completed''"
  "map lowerAscii (js ''delivered'') = js ''delivered''"
  by code_simp+

lemma RX_stageWon_iff:
  "rxTest RX_stageWon s \<longleftrightarrow>
   containsWord s ''won'' \<or> containsWord s ''completed'' \<or> containsWord s ''delivered''"
  using rxTest_gap [of "js ''closed''" "js ''won''" s]
  by (auto simp: RX_stageWon_def rxTest_Or rxTest_Lit containsWord_def lower_words)

lemma RX_statusWon_iff: "rxTest RX_statusWon s \<longleftrightarrow> containsWord s ''won''"
  using rxTest_gap [of "js ''closed''" "js ''won''" s]
  by (auto simp: RX_statusWon_def rxTest_Or rxTest_Lit containsWord_def lower_words)

lemma dealsStep_fold:
  "foldl (dealsStep E sc tc) acc rs =
     \<lparr>a_count = a_count acc + length rs,
      a_closedWon = a_closedWon acc +
        sum_list (map (\<lambda>r. (if stageWon E sc r then 1 else 0) + (if statusWon E tc r then 1 else 0)) rs),
      a_closedLost = a_closedLost acc +
        sum_list (map (\<lambda>r. if statusLost E tc r then 1 else 0) rs)\<rparr>"
  by (induction rs arbitrary: acc) (simp_all add: dealsStep_def Let_def)

lemma sum_indicators:
  "sum_list (map (\<lambda>r. (if P r then 1 else 0) + (if Q r then (1::nat) else 0)) rs) =
   length (filter P rs) + length (filter Q rs)"
  by (induction rs) simp_all

text \<open>
  C4. The pattern \<^verbatim>\<open>/won|closed.*won|completed|delivered/i\<close> matches exactly the texts that
  contain \<^verbatim>\<open>won\<close>, \<^verbatim>\<open>completed\<close> or \<^verbatim>\<open>delivered\<close>, and \<^verbatim>\<open>/won|closed.*won/i\<close>
  exactly those that contain \<^verbatim>\<open>won\<close>, in any letter case. In \<^verbatim>\<open>computeDealsMetrics\<close>
  the closed-won counter grows by one for a row whose stage text matches the first and by
  one more when its status text matches the second, so before the clamp it is the number
  of rows with a matching stage plus the number of rows with a matching status; the total
  is clamped to the row count; \<open>closeRate\<close> is \<open>closedWon / count\<close> as a double, and
  \<open>0\<close> for no rows. So \<open>closedWon \<le> dealCount\<close> and \<open>closeRate \<le> 1\<close> for every row set.
\<close>

theorem computeDealsMetrics_closedWon:
  "dealCount (computeDealsMetrics E rs) = length rs \<and>
   closedWon (computeDealsMetrics E rs) =
     min (length rs)
       (length (filter (\<lambda>r. containsWord (valueString E (cellOrUnknown r (dealStageCol E rs))) ''won'' \<or>
                            containsWord (valueString E (cellOrUnknown r (dealStageCol E rs))) ''completed'' \<or>
                            containsWord (valueString E (cellOrUnknown r (dealStageCol E rs))) ''delivered'') rs) +
        length (filter (\<lambda>r. containsWord (valueString E (cellOrUnknown r (dealStatusCol E rs))) ''won'') rs)) \<and>
   (\<forall>s. rxTest RX_stageWon s =
      (containsWord s ''won'' \<or> containsWord s ''completed'' \<or> containsWord s ''delivered'')) \<and>
   (\<forall>s. rxTest RX_statusWon s = containsWord s ''won'') \<and>
   closeRate (computeDealsMetrics E rs) =
     (if rs = [] then 0
      else roundDouble (of_nat (closedWon (computeDealsMetrics E rs)) / of_nat (length rs))) \<and>
   closedWon (computeDealsMetrics E rs) \<le> dealCount (computeDealsMetrics E rs) \<and>
   0 \<le> closeRate (computeDealsMetrics E rs) \<and>
   closeRate (computeDealsMetrics E rs) \<le> 1"
proof -
  let ?m = "computeDealsMetrics E rs"
  let ?stage = "\<lambda>r. valueString E (cellOrUnknown r (dealStageCol E rs))"
  let ?status = "\<lambda>r. valueString E (cellOrUnknown r (dealStatusCol E rs))"
  let ?won = "length (filter (\<lambda>r. containsWord (?stage r) ''won'' \<or>
                            containsWord (?stage r) ''completed'' \<or>
                            containsWord (?stage r) ''delivered'') rs) +
        length (filter (\<lambda>r. containsWord (?status r) ''won'') rs)"
  have 1: "dealCount ?m = length rs"
    by (simp add: computeDealsMetrics_def Let_def dealsStep_fold)
  have 2: "closedWon ?m = min (length rs) ?won"
    by (simp add: computeDealsMetrics_def Let_def dealsStep_fold sum_indicators stageWon_def
        statusWon_def RX_stageWon_iff RX_statusWon_iff min.commute)
  have 3: "closeRate ?m =
     (if rs = [] then 0 else roundDouble (of_nat (closedWon ?m) / of_nat (length rs)))"
    by (simp add: computeDealsMetrics_def Let_def dealsStep_fold fdiv_def)
  have 4: "closedWon ?m \<le> dealCount ?m" using 1 2 by simp
  have 5: "0 \<le> closeRate ?m \<and> closeRate ?m \<le> 1"
  proof (cases "rs = []")
    case True
    then show ?thesis using 3 by simp
  next
    case False
    have "(of_nat (closedWon ?m) :: rat) \<le> of_nat (length rs)" using 4 1 by simp
    then have "(of_nat (closedWon ?m) :: rat) / of_nat (length rs) \<le> 1"
      using False by (simp add: divide_le_eq_1)
    moreover have "(0::rat) \<le> of_nat (closedWon ?m) / of_nat (length rs)" by simp
    ultimately show ?thesis using 3 False roundDouble_unit by simp
  qed
  have 6: "\<forall>s. rxTest RX_stageWon s =
      (containsWord s ''won'' \<or> containsWord s ''completed'' \<or> containsWord s ''delivered'')"
    by (simp add: RX_stageWon_iff)
  have 7: "\<forall>s. rxTest RX_statusWon s = containsWord s ''won''"
    by (simp add: RX_statusWon_iff)
  show ?thesis using 1 2 3 4 5 6 7 by (intro conjI) simp_all
qed


theorem computeDealsMetrics_closedWon_witness:
  "dealCount (computeDealsMetrics refEngine pipelineRows) = 3 \<and>
   closedWon (computeDealsMetrics refEngine pipelineRows) = 2 \<and>
   closeRate (computeDealsMetrics refEngine pipelineRows) = 6004799503160661 / 9007199254740992 \<and>
   closedWon (computeDealsMetrics refEngine [dealRow ''1'' ''A'' ''Closed Won'' ''Won'']) = 1 \<and>
   closeRate (computeDealsMetrics refEngine [dealRow ''1'' ''A'' ''Closed Won'' ''Won'']) = 1 \<and>
   closedWon (computeDealsMetrics refEngine [dealRow ''1'' ''A'' ''Delivered'' ''Open'']) = 1 \<and>
   closedWon (computeDealsMetrics refEngine [dealRow ''1'' ''A'' ''Lead'' ''Completed'']) = 0 \<and>
   closedWon (computeDealsMetrics refEngine
      [dealRow ''1'' ''A'' ''Lead'' ''Open'', dealRow ''2'' ''B'' ''Lead'' ''Open'']) = 0 \<and>
   closeRate (computeDealsMetrics refEngine
      [dealRow ''1'' ''A'' ''Lead'' ''Open'', dealRow ''2'' ''B'' ''Lead'' ''Open'']) = 0 \<and>
   closedWon (computeDealsMetrics refEngine []) = 0 \<and>
   closeRate (computeDealsMetrics refEngine []) = 0 \<and>
   rxTest RX_stageWon (js ''Closed - WON'') \<and> rxTest RX_stageWon (js ''Completed'') \<and>
   \<not> rxTest RX_stageWon (js ''Lead'') \<and> \<not> rxTest RX_statusWon (js ''Completed'')"
proof -
  let ?m = "computeDealsMetrics refEngine pipelineRows"
  note main = computeDealsMetrics_closedWon [of refEngine pipelineRows]
  have n: "length pipelineRows = 3" by (simp add: pipelineRows_def)
  have f: "length (filter (\<lambda>r.
        containsWord (valueString refEngine (cellOrUnknown r (dealStageCol refEngine pipelineRows))) ''won'' \<or>
        containsWord (valueString refEngine (cellOrUnknown r (dealStageCol refEngine pipelineRows))) ''completed'' \<or>
        containsWord (valueString refEngine (cellOrUnknown r (dealStageCol refEngine pipelineRows))) ''delivered'')
      pipelineRows) +
     length (filter (\<lambda>r.
        containsWord (valueString refEngine (cellOrUnknown r (dealStatusCol refEngine pipelineRows))) ''won'')
      pipelineRows) = 2"
    by code_simp
  have rd: "roundDouble (2 / 3) = 6004799503160661 / 9007199254740992" by code_simp
  have ne: "pipelineRows \<noteq> []" by (simp add: pipelineRows_def)
  have 1: "dealCount ?m = 3" using main n by simp
  have 2: "closedWon ?m = 2" using main [THEN conjunct2, THEN conjunct1] n f by simp
  have 3: "closeRate ?m = 6004799503160661 / 9007199254740992"
    using main [THEN conjunct2, THEN conjunct2, THEN conjunct2, THEN conjunct2, THEN conjunct1]
      2 n ne rd by simp
  have 4: "closedWon (computeDealsMetrics refEngine [dealRow ''1'' ''A'' ''Closed Won'' ''Won'']) = 1"
    by code_simp
  have 5: "closeRate (computeDealsMetrics refEngine [dealRow ''1'' ''A'' ''Closed Won'' ''Won'']) = 1"
    by code_simp
  have 6: "closedWon (computeDealsMetrics refEngine [dealRow ''1'' ''A'' ''Delivered'' ''Open'']) = 1"
    by code_simp
  have 7: "closedWon (computeDealsMetrics refEngine [dealRow ''1'' ''A'' ''Lead'' ''Completed'']) = 0"
    by code_simp
  have 8: "closedWon (computeDealsMetrics refEngine
      [dealRow ''1'' ''A'' ''Lead'' ''Open'', dealRow ''2'' ''B'' ''Lead'' ''Open'']) = 0"
    by code_simp
  have 9: "closeRate (computeDealsMetrics refEngine
      [dealRow ''1'' ''A'' ''Lead'' ''Open'', dealRow ''2'' ''B'' ''Lead'' ''Open'']) = 0"
    by code_simp
  have 10: "closedWon (computeDealsMetrics refEngine []) = 0" by code_simp
  have 11: "closeRate (computeDealsMetrics refEngine []) = 0" by code_simp
  have 12: "rxTest RX_stageWon (js ''Closed - WON'')" "rxTest RX_stageWon (js ''Completed'')"
    "\<not> rxTest RX_stageWon (js ''Lead'')" "\<not> rxTest RX_statusWon (js ''Completed'')"
    by code_simp+
  show ?thesis using 1 2 3 4 5 6 7 8 9 10 11 12 by (intro conjI)
qed


section \<open>Work-order metrics: classes and the overdue count\<close>

lemma woStep_fold:
  "foldl (woStep E now sc ec) acc rs =
     \<lparr>w_open = w_open acc + length (filter (\<lambda>r. classify E sc r \<noteq> Completed) rs),
      w_closed = w_closed acc + length (filter (\<lambda>r. classify E sc r = Completed) rs),
      w_overdue = w_overdue acc +
        length (filter (\<lambda>r. (classify E sc r = Ongoing \<or> classify E sc r = OtherOpen) \<and>
                              pastDue E now ec r) rs),
      w_completed = w_completed acc + length (filter (\<lambda>r. classify E sc r = Completed) rs),
      w_notStarted = w_notStarted acc + length (filter (\<lambda>r. classify E sc r = NotStarted) rs),
      w_ongoing = w_ongoing acc + length (filter (\<lambda>r. classify E sc r = Ongoing) rs),
      w_other = w_other acc + length (filter (\<lambda>r. classify E sc r = OtherOpen) rs)\<rparr>"
proof (induction rs arbitrary: acc)
  case Nil
  then show ?case by simp
next
  case (Cons r rs)
  have step: "foldl (woStep E now sc ec) acc (r # rs) =
      foldl (woStep E now sc ec) (woStep E now sc ec acc r) rs" by simp
  show ?case
    unfolding step Cons.IH by (cases "classify E sc r") (simp_all add: woStep_def)
qed

lemma computeWorkOrdersMetrics_counts:
  "w_closed (computeWorkOrdersMetrics E now rs) =
     length (filter (\<lambda>r. classify E (execStatusColOf E rs) r = Completed) rs) \<and>
   w_notStarted (computeWorkOrdersMetrics E now rs) =
     length (filter (\<lambda>r. classify E (execStatusColOf E rs) r = NotStarted) rs) \<and>
   w_ongoing (computeWorkOrdersMetrics E now rs) =
     length (filter (\<lambda>r. classify E (execStatusColOf E rs) r = Ongoing) rs) \<and>
   w_other (computeWorkOrdersMetrics E now rs) =
     length (filter (\<lambda>r. classify E (execStatusColOf E rs) r = OtherOpen) rs) \<and>
   w_overdue (computeWorkOrdersMetrics E now rs) =
     length (filter (\<lambda>r. (classify E (execStatusColOf E rs) r = Ongoing \<or>
                            classify E (execStatusColOf E rs) r = OtherOpen) \<and>
                           pastDue E now (endColOf E rs) r) rs) \<and>
   w_open (computeWorkOrdersMetrics E now rs) + w_closed (computeWorkOrdersMetrics E now rs) =
     length rs"
  by (simp add: computeWorkOrdersMetrics_def woStep_fold sum_length_filter_compl add.commute)


text \<open>
  C5. Every row falls in exactly one class (\<open>computeWorkOrdersMetrics_counts\<close>), but
  the overdue counter is only advanced in the branches of the ongoing and of the other
  open rows. A row whose status is \<^verbatim>\<open>"Not Started"\<close> and whose end date 2020-01-01 lies
  before the evaluation time 2024-01-01 is counted open and not started, and not
  overdue; the same row with the status \<^verbatim>\<open>"Ongoing"\<close> is counted overdue.
\<close>

theorem computeWorkOrdersMetrics_notStarted_overdue:
  "classify refEngine (execStatusColOf refEngine [woRow ''1'' ''Survey A'' ''Not Started'' ''2020-01-01''])
     (woRow ''1'' ''Survey A'' ''Not Started'' ''2020-01-01'') = NotStarted \<and>
   pastDue refEngine newYear2024 (endColOf refEngine [woRow ''1'' ''Survey A'' ''Not Started'' ''2020-01-01''])
     (woRow ''1'' ''Survey A'' ''Not Started'' ''2020-01-01'') \<and>
   computeWorkOrdersMetrics refEngine newYear2024 [woRow ''1'' ''Survey A'' ''Not Started'' ''2020-01-01''] =
     \<lparr>w_open = 1, w_closed = 0, w_overdue = 0, w_completed = 0, w_notStarted = 1,
      w_ongoing = 0, w_other = 0\<rparr> \<and>
   computeWorkOrdersMetrics refEngine newYear2024 [woRow ''1'' ''Survey A'' ''Ongoing'' ''2020-01-01''] =
     \<lparr>w_open = 1, w_closed = 0, w_overdue = 1, w_completed = 0, w_notStarted = 0,
      w_ongoing = 1, w_other = 0\<rparr>"
  by code_simp

section \<open>Cross-board analysis: linkage by name\<close>

lemma mapE_Inr:
  "mapE f xs = Inr ys \<Longrightarrow> list_all2 (\<lambda>x y. f x = Inr y) xs ys"
proof (induction xs arbitrary: ys)
  case Nil
  then show ?case by simp
next
  case (Cons x xs)
  then show ?case by (auto split: sum.splits)
qed


text \<open>
  C7 (as amended). When the analysis returns, a deal whose lower-cased display name has
  at least 3 code units and a work order whose lower-cased display name contains that
  name, or is contained in it, give a linked work-order count of at least 1.
\<close>

theorem crossBoardAnalysis_name_link:
  assumes "crossBoardAnalysis E dealsRows woRows = Inr res"
    and "d \<in> set dealsRows" and "w \<in> set woRows"
    and "lowerName E d = Inr dn" and "lowerName E w = Inr wn"
    and "3 \<le> length dn" and "jsIncludes wn dn \<or> jsIncludes dn wn"
  shows "1 \<le> linkedWorkOrders res"
proof -
  obtain dealNames where dn: "mapE (lowerName E) dealsRows = Inr dealNames"
    using assms(1) by (auto simp: crossBoardAnalysis_def split: sum.splits)
  obtain woNames where wn: "mapE (lowerName E) woRows = Inr woNames"
    using assms(1) dn by (auto simp: crossBoardAnalysis_def split: sum.splits)
  obtain dealSectors where ds: "dealSectorsOf E dealsRows = Inr dealSectors"
    using assms(1) dn wn by (auto simp: crossBoardAnalysis_def split: sum.splits)
  let ?linked = "filter (\<lambda>(n, r). nameLinked dealNames n (allText E r)) (zip woNames woRows)"
  have res: "linkedWorkOrders res =
      max (length ?linked)
        (length (if dealSectors = [] then []
           else filter (\<lambda>r. list_ex (\<lambda>sec. jsIncludes (allText E r) sec) dealSectors) woRows))"
    using assms(1) dn wn ds by (auto simp: crossBoardAnalysis_def Let_def)
  have d2: "list_all2 (\<lambda>x y. lowerName E x = Inr y) dealsRows dealNames"
    using dn by (rule mapE_Inr)
  have w2: "list_all2 (\<lambda>x y. lowerName E x = Inr y) woRows woNames"
    using wn by (rule mapE_Inr)
  have "dn \<in> set dealNames"
  proof -
    obtain i where i: "i < length dealsRows" "dealsRows ! i = d"
      using assms(2) by (auto simp: in_set_conv_nth)
    then have "lowerName E d = Inr (dealNames ! i)" using d2 by (auto simp: list_all2_conv_all_nth)
    then have "dealNames ! i = dn" using assms(4) by simp
    moreover have "i < length dealNames" using i d2 by (auto dest: list_all2_lengthD)
    ultimately show ?thesis by auto
  qed
  then have linked: "nameLinked dealNames wn t" for t
    unfolding nameLinked_def list_ex_iff
    using assms(6,7) by (intro bexI [of _ dn]) auto
  have "(wn, w) \<in> set (zip woNames woRows)"
  proof -
    obtain j where j: "j < length woRows" "woRows ! j = w"
      using assms(3) by (auto simp: in_set_conv_nth)
    then have "lowerName E w = Inr (woNames ! j)" using w2 by (auto simp: list_all2_conv_all_nth)
    then have "woNames ! j = wn" using assms(5) by simp
    moreover have "j < length woNames" using j w2 by (auto dest: list_all2_lengthD)
    ultimately show ?thesis using j by (auto simp: in_set_zip)
  qed
  then have "(wn, w) \<in> set ?linked" using linked by simp
  then have "?linked \<noteq> []" by (metis empty_iff empty_set)
  then have "1 \<le> length ?linked" by (cases ?linked) auto
  then show ?thesis using res by simp
qed


text \<open>
  C7 as stated fails: neither of \<^verbatim>\<open>"acme solar rollout"\<close> and
  \<^verbatim>\<open>"acme solar - phase 1"\<close> (with its em dash) contains the other, so for a deal and a
  work order that carry only these names the linked count is 0.
\<close>

theorem crossBoardAnalysis_acme_counterexample:
  "crossBoardAnalysis refEngine [namedRow ''1'' (js ''Acme Solar Rollout'')] [namedRow ''2'' acmePhase1] =
     Inr \<lparr>linkedWorkOrders = 0, sectorLinkedWorkOrders = 0\<rparr>"
  by code_simp

theorem crossBoardAnalysis_name_link_witness:
  "lowerName refEngine (namedRow ''1'' (js ''Acme Solar'')) = Inr (js ''acme solar'') \<and>
   lowerName refEngine (namedRow ''2'' acmePhase1) = Inr (js ''acme solar '' @ [8212] @ js '' phase 1'') \<and>
   jsIncludes (js ''acme solar '' @ [8212] @ js '' phase 1'') (js ''acme solar'') \<and>
   crossBoardAnalysis refEngine [namedRow ''1'' (js ''Acme Solar'')] [namedRow ''2'' acmePhase1] =
     Inr \<lparr>linkedWorkOrders = 1, sectorLinkedWorkOrders = 0\<rparr> \<and>
   1 \<le> linkedWorkOrders \<lparr>linkedWorkOrders = 1, sectorLinkedWorkOrders = 0\<rparr>"
proof -
  have 1: "lowerName refEngine (namedRow ''1'' (js ''Acme Solar'')) = Inr (js ''acme solar'')"
    by code_simp
  have 2: "lowerName refEngine (namedRow ''2'' acmePhase1) =
      Inr (js ''acme solar '' @ [8212] @ js '' phase 1'')" by code_simp
  have 3: "jsIncludes (js ''acme solar '' @ [8212] @ js '' phase 1'') (js ''acme solar'')"
    by code_simp
  have 4: "crossBoardAnalysis refEngine [namedRow ''1'' (js ''Acme Solar'')] [namedRow ''2'' acmePhase1] =
     Inr \<lparr>linkedWorkOrders = 1, sectorLinkedWorkOrders = 0\<rparr>" by code_simp
  have 5: "3 \<le> length (js ''acme solar'')" by (simp add: js_def)
  have 6: "1 \<le> linkedWorkOrders \<lparr>linkedWorkOrders = 1, sectorLinkedWorkOrders = 0\<rparr>"
    using crossBoardAnalysis_name_link [OF 4 _ _ 1 2 5] 3 by simp
  show ?thesis using 1 2 3 4 6 by (intro conjI)
qed

section \<open>Date normalization: shapes and the year of the month-day-year form\<close>

lemma normalizeDate_blank:
  "normalizeDate E None = Inr None \<and> (jsTrim r = [] \<longrightarrow> normalizeDate E (Some r) = Inr None)"
  by (simp add: normalizeDate_def)

lemma normalizeDate_other_shape:
  assumes "\<not> ISO_RE (jsTrim r)" "\<not> isExcelSerial (jsTrim r)" "matchMDY_RE (jsTrim r) = None"
  shows "normalizeDate E (Some r) = Inr None"
  using assms by (simp add: normalizeDate_def Let_def)

lemma normalizeDate_month_day_range:
  assumes "\<not> ISO_RE (jsTrim r)" "\<not> isExcelSerial (jsTrim r)"
    and "matchMDY_RE (jsTrim r) = Some (m, d, y)"
    and "digitsValue m < 1 \<or> 12 < digitsValue m \<or> digitsValue d < 1 \<or> 31 < digitsValue d"
  shows "normalizeDate E (Some r) = Inr None"
proof -
  have "jsTrim r \<noteq> []" using assms(3) by (auto simp: matchMDY_RE_def Let_def split: if_splits)
  then have "r \<noteq> []" by (auto simp: jsTrim_def)
  then show ?thesis
    using assms \<open>jsTrim r \<noteq> []\<close> by (auto simp: normalizeDate_def Let_def formatYMD_def)
qed


text \<open>
  C2. The claim fails on the month-day-year form: \<^verbatim>\<open>formatYMD\<close> pads the month and the
  day to two digits but prints the year as a number, so a year written with a leading
  zero loses it. For \<^verbatim>\<open>"1/1/0999"\<close> (month 1, day 1, a four-digit year) the result is
  \<^verbatim>\<open>"999-01-01"\<close>, which does not match \<^verbatim>\<open>^\d{4}-\d{2}-\d{2}$\<close>. The other evaluations
  show the same function on a year from 1000 on, on a serial, and on inputs the claim
  sends to \<^verbatim>\<open>null\<close>; none of them depends on the engine.
\<close>

theorem normalizeDate_short_year:
  "normalizeDate E (Some (js ''1/1/0999'')) = Inr (Some (js ''999-01-01'')) \<and>
   \<not> matchesYMD (js ''999-01-01'') \<and>
   normalizeDate E (Some (js ''03/15/2024'')) = Inr (Some (js ''2024-03-15'')) \<and>
   matchesYMD (js ''2024-03-15'') \<and>
   normalizeDate E (Some (js ''45366'')) = Inr (Some (js ''2024-03-15'')) \<and>
   normalizeDate E (Some (js ''13/45/2024'')) = Inr None \<and>
   normalizeDate E (Some (js ''not-a-date'')) = Inr None"
  by code_simp

section \<open>Plan execution: a failed source gives an error and nothing else\<close>

lemma fetchBoard_error_truthy:
  "fetchBoard mondayRequest i = Inr fr \<Longrightarrow> fr_error fr = Some e \<Longrightarrow> e \<noteq> []"
  by (auto simp: fetchBoard_def firstBoard_def js_def
      split: sum.splits option.splits list.splits if_splits)

lemma loadSource_fails:
  assumes "sourceFails mondayRequest boardId"
  shows "loadSource E mondayRequest boardId msg =
           Returned (errorResult (failureMessage mondayRequest boardId msg))"
proof (cases boardId)
  case None
  then show ?thesis by (simp add: loadSource_def failureMessage_def)
next
  case (Some i)
  show ?thesis
  proof (cases "i = []")
    case True
    then show ?thesis using Some by (simp add: loadSource_def failureMessage_def)
  next
    case False
    then obtain fr e where fr: "fetchBoard mondayRequest i = Inr fr" and e: "fr_error fr = Some e"
      using assms Some by (auto simp: sourceFails_def split: sum.splits)
    have "e \<noteq> []" using fr e by (rule fetchBoard_error_truthy)
    then show ?thesis using Some False fr e by (simp add: loadSource_def failureMessage_def)
  qed
qed


text \<open>
  C8 (as amended). A requested source fails when its board identifier is not configured
  or its fetch returns a non-null error. If the deals source is requested and fails,
  \<^verbatim>\<open>executePlan\<close> returns the result that carries only the message of that failure. If
  the work-orders source is requested and fails, and the deals source is not requested
  or was fetched and normalized, \<^verbatim>\<open>executePlan\<close> returns the result that carries only
  the message of that failure. Whenever a requested source fails, \<^verbatim>\<open>executePlan\<close> either
  returns a result with an error message and no other field, or raises the exception
  that loading the deals source raised.
\<close>

theorem executePlan_error_only:
  "(needDeals p \<and> sourceFails mondayRequest (DEALS_BOARD_ID ev) \<longrightarrow>
      executePlan E now ev mondayRequest p =
        Inr (errorResult (failureMessage mondayRequest (DEALS_BOARD_ID ev) dealsNotConfigured))) \<and>
   (needWO p \<and> sourceFails mondayRequest (WORK_ORDERS_BOARD_ID ev) \<and>
    (\<not> needDeals p \<or> (\<exists>d. loadDeals E ev mondayRequest = Loaded d)) \<longrightarrow>
      executePlan E now ev mondayRequest p =
        Inr (errorResult (failureMessage mondayRequest (WORK_ORDERS_BOARD_ID ev) woNotConfigured))) \<and>
   ((needDeals p \<and> sourceFails mondayRequest (DEALS_BOARD_ID ev)) \<or>
    (needWO p \<and> sourceFails mondayRequest (WORK_ORDERS_BOARD_ID ev)) \<longrightarrow>
      (case executePlan E now ev mondayRequest p of
         Inl e \<Rightarrow> needDeals p \<and> loadDeals E ev mondayRequest = Threw e
       | Inr r \<Rightarrow> \<exists>msg. r = errorResult msg)) \<and>
   (m_deals (errorResult msg) = None \<and> m_workOrders (errorResult msg) = None \<and>
    m_crossBoard (errorResult msg) = None \<and> m_filteredDeals (errorResult msg) = None \<and>
    dq_deals (errorResult msg) = None \<and> dq_workOrders (errorResult msg) = None \<and>
    t_deals (errorResult msg) = None \<and> t_workOrders (errorResult msg) = None \<and>
    t_filteredDeals (errorResult msg) = None \<and> confidence (errorResult msg) = None \<and>
    x_error (errorResult msg) = Some msg)"
proof -
  let ?dm = "failureMessage mondayRequest (DEALS_BOARD_ID ev) dealsNotConfigured"
  let ?wm = "failureMessage mondayRequest (WORK_ORDERS_BOARD_ID ev) woNotConfigured"
  have A: "needDeals p \<and> sourceFails mondayRequest (DEALS_BOARD_ID ev) \<longrightarrow>
      executePlan E now ev mondayRequest p = Inr (errorResult ?dm)"
    by (simp add: executePlan_def loadDeals_def loadSource_fails)
  have B: "needWO p \<and> sourceFails mondayRequest (WORK_ORDERS_BOARD_ID ev) \<and>
    (\<not> needDeals p \<or> (\<exists>d. loadDeals E ev mondayRequest = Loaded d)) \<longrightarrow>
      executePlan E now ev mondayRequest p = Inr (errorResult ?wm)"
    by (auto simp: executePlan_def loadWO_def loadSource_fails)
  have C: "(needDeals p \<and> sourceFails mondayRequest (DEALS_BOARD_ID ev)) \<or>
    (needWO p \<and> sourceFails mondayRequest (WORK_ORDERS_BOARD_ID ev)) \<longrightarrow>
      (case executePlan E now ev mondayRequest p of
         Inl e \<Rightarrow> needDeals p \<and> loadDeals E ev mondayRequest = Threw e
       | Inr r \<Rightarrow> \<exists>msg. r = errorResult msg)"
  proof
    assume h: "(needDeals p \<and> sourceFails mondayRequest (DEALS_BOARD_ID ev)) \<or>
      (needWO p \<and> sourceFails mondayRequest (WORK_ORDERS_BOARD_ID ev))"
    show "case executePlan E now ev mondayRequest p of
         Inl e \<Rightarrow> needDeals p \<and> loadDeals E ev mondayRequest = Threw e
       | Inr r \<Rightarrow> \<exists>msg. r = errorResult msg"
    proof (cases "needDeals p \<and> sourceFails mondayRequest (DEALS_BOARD_ID ev)")
      case True
      then show ?thesis using A by auto
    next
      case False
      then have w: "needWO p" "sourceFails mondayRequest (WORK_ORDERS_BOARD_ID ev)" using h by auto
      have lw: "loadWO E ev mondayRequest = Returned (errorResult ?wm)"
        using w(2) by (simp add: loadWO_def loadSource_fails)
      show ?thesis
      proof (cases "needDeals p")
        case nd: False
        then show ?thesis using B w by auto
      next
        case nd: True
        then have df: "\<not> sourceFails mondayRequest (DEALS_BOARD_ID ev)" using False by simp
        obtain i where i: "DEALS_BOARD_ID ev = Some i" "i \<noteq> []"
          using df by (cases "DEALS_BOARD_ID ev") (auto simp: sourceFails_def)
        show ?thesis
        proof (cases "loadDeals E ev mondayRequest")
          case (Threw e)
          then show ?thesis using nd by (simp add: executePlan_def)
        next
          case (Returned r)
          then have "\<exists>msg. r = errorResult msg"
            using i by (auto simp: loadDeals_def loadSource_def split: sum.splits option.splits if_splits)
          then show ?thesis using nd Returned by (auto simp: executePlan_def)
        next
          case (Loaded d)
          then have "executePlan E now ev mondayRequest p = Inr (errorResult ?wm)"
            using nd w lw by (simp add: executePlan_def)
          then show ?thesis by auto
        qed
      qed
    qed
  qed
  have D: "m_deals (errorResult msg) = None \<and> m_workOrders (errorResult msg) = None \<and>
    m_crossBoard (errorResult msg) = None \<and> m_filteredDeals (errorResult msg) = None \<and>
    dq_deals (errorResult msg) = None \<and> dq_workOrders (errorResult msg) = None \<and>
    t_deals (errorResult msg) = None \<and> t_workOrders (errorResult msg) = None \<and>
    t_filteredDeals (errorResult msg) = None \<and> confidence (errorResult msg) = None \<and>
    x_error (errorResult msg) = Some msg"
    by (simp add: errorResult_def)
  show ?thesis by (rule conjI [OF A conjI [OF B conjI [OF C D]]])
qed


text \<open>
  C8 as stated fails when an earlier source raises an exception: with the deals board
  configured, the work-orders board not configured and no API token, the plan for all
  sources does not return an error result; the fetch of the deals board throws, and
  \<^verbatim>\<open>executePlan\<close> with it.
\<close>

theorem executePlan_throws_counterexample:
  "needWO allPlan \<and> sourceFails noToken (WORK_ORDERS_BOARD_ID dealsOnlyEnv) \<and>
   executePlan refEngine newYear2024 dealsOnlyEnv noToken allPlan =
     Inl (Error (js ''MONDAY_API_TOKEN is not configured. Set it in your .env file.''))"
  by code_simp

theorem executePlan_error_only_witness:
  "needWO allPlan \<and> needDeals allPlan \<and>
   sourceFails mockTransport (WORK_ORDERS_BOARD_ID dealsOnlyEnv) \<and>
   loadDeals refEngine dealsOnlyEnv mockTransport =
     Loaded \<lparr>boardName = js ''Test Board'', rows = mockRows, dataQuality = mockReport\<rparr> \<and>
   executePlan refEngine newYear2024 dealsOnlyEnv mockTransport allPlan =
     Inr (errorResult woNotConfigured) \<and>
   sourceFails mockTransport (WORK_ORDERS_BOARD_ID bothEnv) \<and>
   executePlan refEngine newYear2024 bothEnv mockTransport allPlan =
     Inr (errorResult (js ''Monday.com API returned HTTP 500''))"
proof -
  have 1: "needWO allPlan" "needDeals allPlan" by code_simp+
  have 2: "sourceFails mockTransport (WORK_ORDERS_BOARD_ID dealsOnlyEnv)" by code_simp
  have 3: "loadDeals refEngine dealsOnlyEnv mockTransport =
     Loaded \<lparr>boardName = js ''Test Board'', rows = mockRows, dataQuality = mockReport\<rparr>"
    by code_simp
  have 4: "failureMessage mockTransport (WORK_ORDERS_BOARD_ID dealsOnlyEnv) woNotConfigured =
     woNotConfigured" by code_simp
  have 5: "executePlan refEngine newYear2024 dealsOnlyEnv mockTransport allPlan =
     Inr (errorResult woNotConfigured)"
    using executePlan_error_only [of allPlan mockTransport dealsOnlyEnv refEngine newYear2024] 1 2 3 4
    by simp
  have 6: "sourceFails mockTransport (WORK_ORDERS_BOARD_ID bothEnv)" by code_simp
  have 7: "loadDeals refEngine bothEnv mockTransport =
     Loaded \<lparr>boardName = js ''Test Board'', rows = mockRows, dataQuality = mockReport\<rparr>"
    by code_simp
  have 8: "failureMessage mockTransport (WORK_ORDERS_BOARD_ID bothEnv) woNotConfigured =
     js ''Monday.com API returned HTTP 500''" by code_simp
  have 9: "executePlan refEngine newYear2024 bothEnv mockTransport allPlan =
     Inr (errorResult (js ''Monday.com API returned HTTP 500''))"
    using executePlan_error_only [of allPlan mockTransport bothEnv refEngine newYear2024] 1 6 7 8
    by simp
  show ?thesis using 1 2 3 5 6 9 by (intro conjI)
qed

end
